theory Spec2Isabelle
  imports Main
begin

section \<open>Python strings\<close>

text \<open>
  A Python \<^verbatim>\<open>str\<close> is a sequence of Unicode code points and \<^verbatim>\<open>len\<close> counts code
  points, so a string is modelled as the list of its code points. The Korean literals
  of \<^verbatim>\<open>main.py\<close> are written out as numerals; the printable ASCII parts are kept
  readable through \<open>ascii\<close>.
\<close>

type_synonym pystr = "nat list"

definition ascii :: "string \<Rightarrow> pystr" where
  "ascii s = map of_char s"

text \<open>\<^verbatim>\<open>str(n)\<close> and \<^verbatim>\<open>f"{n}"\<close> for the result of \<^verbatim>\<open>len\<close>: decimal digits.\<close>

fun str_nat :: "nat \<Rightarrow> pystr" where
  "str_nat n = (if n < 10 then [48 + n] else str_nat (n div 10) @ [48 + n mod 10])"

declare str_nat.simps [simp del]

text \<open>\<^verbatim>\<open>sep.join(xs)\<close>.\<close>

fun join :: "pystr \<Rightarrow> pystr list \<Rightarrow> pystr" where
  "join sep [] = []"
| "join sep [x] = x"
| "join sep (x # y # ys) = x @ sep @ join sep (y # ys)"

text \<open>\<^verbatim>\<open>s[:-3]\<close>: everything but the last three code points, empty when there are fewer.\<close>

definition drop_last3 :: "pystr \<Rightarrow> pystr" where
  "drop_last3 s = take (length s - 3) s"

text \<open>\<^verbatim>\<open>xs[-8:]\<close>: the last eight elements, the whole list when it is shorter.\<close>

definition last8 :: "'a list \<Rightarrow> 'a list" where
  "last8 xs = drop (length xs - 8) xs"

text \<open>\<^verbatim>\<open>d.get(k, default)\<close> on a dict literal, kept as its list of items.\<close>

definition dict_get :: "('k \<times> 'v) list \<Rightarrow> 'k \<Rightarrow> 'v \<Rightarrow> 'v" where
  "dict_get d k dflt = (case map_of d k of None \<Rightarrow> dflt | Some v \<Rightarrow> v)"

text \<open>
  \<^verbatim>\<open>str.isspace\<close> for one code point and \<^verbatim>\<open>str.strip()\<close>, as the submit guard
  \<^verbatim>\<open>user_input and user_input.strip()\<close> needs them.
\<close>

definition py_isspace :: "nat \<Rightarrow> bool" where
  "py_isspace c \<longleftrightarrow>
     (0x9 \<le> c \<and> c \<le> 0xD) \<or> (0x1C \<le> c \<and> c \<le> 0x20) \<or> c = 0x85 \<or> c = 0xA0 \<or>
     c = 0x1680 \<or> (0x2000 \<le> c \<and> c \<le> 0x200A) \<or> c = 0x2028 \<or> c = 0x2029 \<or>
     c = 0x202F \<or> c = 0x205F \<or> c = 0x3000"

definition py_strip :: "pystr \<Rightarrow> pystr" where
  "py_strip s = rev (dropWhile py_isspace (rev (dropWhile py_isspace s)))"


section \<open>The clock and the interpreter\<close>

text \<open>
  \<^verbatim>\<open>time.time()\<close> returns a float and \<^verbatim>\<open>datetime.now()\<close> the wall clock. Both are
  inputs of the model: \<open>time_time rt k\<close> is the value of the \<open>k\<close>-th clock reading of a
  query and \<open>datetime_now rt k\<close> is \<^verbatim>\<open>datetime.now().strftime("%H:%M:%S.%f")\<close> at that
  reading. Float subtraction and the format \<^verbatim>\<open>:.2f\<close> are parameters as well, over an
  arbitrary type \<open>'t\<close> of time values, so nothing is assumed about floating point.
  \<open>unbound_local_message\<close> is the interpreter's text for reading a local variable that
  was never assigned.
\<close>

record 't runtime =
  time_time :: "nat \<Rightarrow> 't"
  datetime_now :: "nat \<Rightarrow> pystr"
  float_sub :: "'t \<Rightarrow> 't \<Rightarrow> 't"
  format_2f :: "'t \<Rightarrow> pystr"
  unbound_local_message :: pystr


section \<open>RealTimeProcessLogger\<close>

text \<open>
  One entry of \<^verbatim>\<open>self.logs\<close>: the dict with the keys \<^verbatim>\<open>time\<close>, \<^verbatim>\<open>elapsed\<close>,
  \<^verbatim>\<open>level\<close>, \<^verbatim>\<open>message\<close> and \<^verbatim>\<open>data\<close> (\<open>None\<close> for Python's \<^verbatim>\<open>None\<close>).
\<close>

record log_entry =
  log_time :: pystr
  log_elapsed :: pystr
  log_level :: pystr
  log_message :: pystr
  log_data :: "pystr option"

text \<open>
  The logger object: \<open>log_placeholder\<close> is what the Streamlit placeholder shows
  (\<open>None\<close> after \<^verbatim>\<open>.empty()\<close>, \<open>Some text\<close> after \<^verbatim>\<open>.markdown(text)\<close>), \<open>logs\<close> and
  \<open>start_time\<close> are the attributes of the same name. \<open>clock_reads\<close> counts the clock
  readings made so far; it is threaded with the logger because every \<^verbatim>\<open>log_actual\<close>
  reads the clock. The attribute \<^verbatim>\<open>container\<close> is never used after construction.
\<close>

record 't world =
  log_placeholder :: "pystr option"
  logs :: "log_entry list"
  start_time :: 't
  clock_reads :: nat

definition now :: "'t runtime \<Rightarrow> 't world \<Rightarrow> 't" where
  "now rt w = time_time rt (clock_reads w)"

definition tick :: "'t world \<Rightarrow> 't world" where
  "tick w = w\<lparr>clock_reads := Suc (clock_reads w)\<rparr>"

text \<open>\<^verbatim>\<open>__init__\<close>, with \<open>n\<close> clock readings made before it.\<close>

definition RealTimeProcessLogger_init :: "'t runtime \<Rightarrow> nat \<Rightarrow> 't world" where
  "RealTimeProcessLogger_init rt n =
     \<lparr>log_placeholder = None, logs = [], start_time = time_time rt n, clock_reads = Suc n\<rparr>"

definition icons :: "(pystr \<times> pystr) list" where
  "icons =
     [(ascii ''INFO'', [0x2139, 0xFE0F]), (ascii ''SUCCESS'', [0x2705]),
      (ascii ''ERROR'', [0x274C]), (ascii ''DATA'', [0x1F4CA]),
      (ascii ''AI'', [0x1F916]), (ascii ''SEARCH'', [0x1F50D])]"

text \<open>
  The body of the loop of \<^verbatim>\<open>update_display\<close>: the text added for one entry.
  \<^verbatim>\<open>if log['data']\<close> is Python truthiness: \<^verbatim>\<open>None\<close> and the empty string are false.
\<close>

definition format_entry :: "log_entry \<Rightarrow> pystr" where
  "format_entry log =
     (let icon = dict_get icons (log_level log) [0x1F4DD];
          data_str = (case log_data log of
                        None \<Rightarrow> []
                      | Some d \<Rightarrow> if d \<noteq> [] then ascii '' | '' @ d else [])
      in [0x60] @ log_time log @ [0x60] @ ascii '' '' @ [0x60] @ ascii ''+'' @ log_elapsed log @
         [0x60] @ ascii '' '' @ icon @ ascii '' '' @ log_message log @ data_str @ [0xA, 0xA])"

definition update_display :: "'t world \<Rightarrow> 't world" where
  "update_display w =
     w\<lparr>log_placeholder :=
         Some (foldl (\<lambda>log_text log. log_text @ format_entry log) [] (last8 (logs w)))\<rparr>"

definition log_actual ::
  "'t runtime \<Rightarrow> pystr \<Rightarrow> pystr \<Rightarrow> pystr option \<Rightarrow> 't world \<Rightarrow> 't world" where
  "log_actual rt level message data w =
     (let elapsed = float_sub rt (now rt w) (start_time w);
          w1 = tick w;
          timestamp = drop_last3 (datetime_now rt (clock_reads w1));
          w2 = tick w1;
          log_entry = \<lparr>log_time = timestamp, log_elapsed = format_2f rt elapsed @ ascii ''s'',
                       log_level = level, log_message = message, log_data = data\<rparr>
      in update_display (w2\<lparr>logs := logs w2 @ [log_entry]\<rparr>))"

definition clear :: "'t world \<Rightarrow> 't world" where
  "clear w = w\<lparr>logs := [], log_placeholder := None\<rparr>"

text \<open>A sequence of calls on one logger instance.\<close>

datatype logger_call = Log_actual pystr pystr "pystr option" | Clear

fun logger_step :: "'t runtime \<Rightarrow> 't world \<Rightarrow> logger_call \<Rightarrow> 't world" where
  "logger_step rt w (Log_actual level message data) = log_actual rt level message data w"
| "logger_step rt w Clear = clear w"

definition logger_run :: "'t runtime \<Rightarrow> logger_call list \<Rightarrow> 't world \<Rightarrow> 't world" where
  "logger_run rt calls w = foldl (logger_step rt) w calls"

fun is_record_call :: "logger_call \<Rightarrow> bool" where
  "is_record_call (Log_actual level message data) = True"
| "is_record_call Clear = False"

text \<open>The number of \<^verbatim>\<open>log_actual\<close> calls made after the last \<^verbatim>\<open>clear\<close>.\<close>

definition records_since_reset :: "logger_call list \<Rightarrow> nat" where
  "records_since_reset calls = length (takeWhile is_record_call (rev calls))"

text \<open>
  What \<^verbatim>\<open>self.logs\<close> should hold after a sequence of calls, told by the calls alone: the
  arguments of the \<^verbatim>\<open>log_actual\<close> calls made after the last \<^verbatim>\<open>clear\<close>, oldest first.
  \<open>entry_args\<close> reads the same three arguments back from a stored entry.
\<close>

fun recorded ::
  "(pystr \<times> pystr \<times> pystr option) list \<Rightarrow> logger_call list \<Rightarrow>
     (pystr \<times> pystr \<times> pystr option) list" where
  "recorded acc [] = acc"
| "recorded acc (Log_actual level message data # calls) =
     recorded (acc @ [(level, message, data)]) calls"
| "recorded acc (Clear # calls) = recorded [] calls"

definition entry_args :: "log_entry \<Rightarrow> pystr \<times> pystr \<times> pystr option" where
  "entry_args log = (log_level log, log_message log, log_data log)"


section \<open>Failures and external collaborators\<close>

text \<open>
  A raised instance of Python's \<^verbatim>\<open>Exception\<close> class, as far as the program looks at
  it: \<open>exc_str\<close> is \<^verbatim>\<open>str(e)\<close> and \<open>exc_type_name\<close> is \<^verbatim>\<open>type(e).__name__\<close>. A call
  that may raise returns \<open>Inl e\<close> when it raises \<open>e\<close> and \<open>Inr v\<close> when it returns \<open>v\<close>.
  Both \<^verbatim>\<open>except\<close> clauses of the program catch \<^verbatim>\<open>Exception\<close> only, so what is not an
  instance of it (\<^verbatim>\<open>KeyboardInterrupt\<close>, \<^verbatim>\<open>SystemExit\<close>, the rerun signal of
  \<^verbatim>\<open>st.rerun\<close>) is outside this type and outside the model.
\<close>

record py_exception =
  exc_str :: pystr
  exc_type_name :: pystr

type_synonym 'a result = "py_exception + 'a"

text \<open>
  The functions imported from \<^verbatim>\<open>utils\<close>, by their interface: each is a call that
  returns a string (a list of strings for \<^verbatim>\<open>extract_hs_codes\<close>) or raises.
  \<^verbatim>\<open>handle_hs_manual_with_parallel_search\<close> is handed the logger, so it takes the
  logger's state and returns it, changed in any way it likes. \<open>HSDataManager\<close> is the
  (cached) construction of the data manager, of an arbitrary type \<open>'m\<close>.
\<close>

record ('t, 'm) collaborators =
  HSDataManager :: "'m result"
  classify_question :: "pystr \<Rightarrow> pystr result"
  handle_web_search :: "pystr \<Rightarrow> pystr \<Rightarrow> 'm \<Rightarrow> pystr result"
  handle_hs_classification_cases :: "pystr \<Rightarrow> pystr \<Rightarrow> 'm \<Rightarrow> pystr result"
  handle_overseas_hs :: "pystr \<Rightarrow> pystr \<Rightarrow> 'm \<Rightarrow> pystr result"
  handle_hs_manual_with_parallel_search ::
    "pystr \<Rightarrow> pystr \<Rightarrow> 'm \<Rightarrow> 't world \<Rightarrow> pystr result \<times> 't world"
  extract_hs_codes :: "pystr \<Rightarrow> pystr list result"
  get_hs_explanations :: "pystr list \<Rightarrow> pystr result"
  clean_text :: "pystr \<Rightarrow> pystr result"

definition get_hs_manager :: "('t, 'm) collaborators \<Rightarrow> 'm result" where
  "get_hs_manager env = HSDataManager env"


section \<open>Session state\<close>

text \<open>
  One turn of \<^verbatim>\<open>st.session_state.chat_history\<close>: the dict with the keys \<^verbatim>\<open>role\<close> and
  \<^verbatim>\<open>content\<close>. The session state has the three keys the script uses;
  \<open>session_context\<close> is the key \<^verbatim>\<open>context\<close>.
\<close>

record conversation_turn =
  role :: pystr
  content :: pystr

record session_state =
  chat_history :: "conversation_turn list"
  selected_category :: pystr
  session_context :: pystr

definition AI_auto_label :: pystr where
  "AI_auto_label = ascii ''AI'' @ [0xC790, 0xB3D9, 0xBD84, 0xB958]"

text \<open>The string literal assigned at initialisation (lines 58 to 74).\<close>

definition initial_context :: pystr where
  "initial_context =
     [0xB2F9, 0xC2E0, 0xC740, 0x20, 0x48, 0x53, 0x20, 0xD488, 0xBAA9, 0xBD84, 0xB958, 0x20,
      0xC804, 0xBB38, 0xAC00, 0xB85C, 0xC11C, 0x20, 0xAD00, 0xC138, 0xCCAD, 0xC5D0, 0xC11C, 0x20,
      0xC624, 0xB79C, 0x20, 0xACBD, 0xB825, 0xC744, 0x20, 0xAC00, 0xC9C4, 0x20, 0xC804, 0xBB38,
      0xAC00, 0xC785, 0xB2C8, 0xB2E4, 0x2E, 0x20, 0xC0AC, 0xC6A9, 0xC790, 0xAC00, 0x20, 0xBB3C,
      0xC5B4, 0xBCF4, 0xB294, 0x20, 0xD488, 0xBAA9, 0xC5D0, 0x20, 0xB300, 0xD574, 0x20, 0xC544,
      0xB798, 0x20, 0xB124, 0x20, 0xAC00, 0xC9C0, 0x20, 0xC720, 0xD615, 0x20, 0xC911, 0x20,
      0xD558, 0xB098, 0xB85C, 0x20, 0xC9C8, 0xBB38, 0xC744, 0x20, 0xBD84, 0xB958, 0xD558, 0xC5EC,
      0x20, 0xB2F5, 0xBCC0, 0xD574, 0xC8FC, 0xC138, 0xC694, 0x2E, 0xA, 0xA, 0xC9C8, 0xBB38,
      0x20, 0xC720, 0xD615, 0x3A, 0xA, 0x31, 0x2E, 0x20, 0xC6F9, 0x20, 0xAC80, 0xC0C9,
      0x28, 0x57, 0x65, 0x62, 0x20, 0x53, 0x65, 0x61, 0x72, 0x63, 0x68, 0x29,
      0x3A, 0x20, 0xBB3C, 0xD488, 0xAC1C, 0xC694, 0x2C, 0x20, 0xC6A9, 0xB3C4, 0x2C, 0x20,
      0xAE30, 0xC220, 0xAC1C, 0xBC1C, 0x2C, 0x20, 0xBB34, 0xC5ED, 0xB3D9, 0xD5A5, 0x20, 0xB4F1,
      0x20, 0xC77C, 0xBC18, 0x20, 0xC815, 0xBCF4, 0x20, 0xD0D0, 0xC0C9, 0xC774, 0x20, 0xD544,
      0xC694, 0xD55C, 0x20, 0xACBD, 0xC6B0, 0x2E, 0xA, 0x32, 0x2E, 0x20, 0x48, 0x53,
      0x20, 0xBD84, 0xB958, 0x20, 0xAC80, 0xC0C9, 0x28, 0x48, 0x53, 0x20, 0x43, 0x6C,
      0x61, 0x73, 0x73, 0x69, 0x66, 0x69, 0x63, 0x61, 0x74, 0x69, 0x6F, 0x6E,
      0x20, 0x53, 0x65, 0x61, 0x72, 0x63, 0x68, 0x29, 0x3A, 0x20, 0x48, 0x53,
      0x20, 0xCF54, 0xB4DC, 0x2C, 0x20, 0xD488, 0xBAA9, 0xBD84, 0xB958, 0x2C, 0x20, 0xAD00,
      0xC138, 0x2C, 0x20, 0xC138, 0xC728, 0x20, 0xB4F1, 0x20, 0x48, 0x53, 0x20, 0xCF54,
      0xB4DC, 0x20, 0xAD00, 0xB828, 0x20, 0xC815, 0xBCF4, 0xAC00, 0x20, 0xD544, 0xC694, 0xD55C,
      0x20, 0xACBD, 0xC6B0, 0x2E, 0xA, 0x33, 0x2E, 0x20, 0x48, 0x53, 0x20, 0xD574,
      0xC124, 0xC11C, 0x20, 0xBD84, 0xC11D, 0x28, 0x48, 0x53, 0x20, 0x4D, 0x61, 0x6E,
      0x75, 0x61, 0x6C, 0x20, 0x41, 0x6E, 0x61, 0x6C, 0x79, 0x73, 0x69, 0x73,
      0x29, 0x3A, 0x20, 0x48, 0x53, 0x20, 0xD574, 0xC124, 0xC11C, 0x20, 0xBCF8, 0xBB38,
      0x20, 0xC2EC, 0xCE35, 0x20, 0xBD84, 0xC11D, 0xC774, 0x20, 0xD544, 0xC694, 0xD55C, 0x20,
      0xACBD, 0xC6B0, 0x2E, 0xA, 0x34, 0x2E, 0x20, 0xD574, 0xC678, 0x20, 0x48, 0x53,
      0x20, 0xBD84, 0xB958, 0x28, 0x4F, 0x76, 0x65, 0x72, 0x73, 0x65, 0x61, 0x73,
      0x20, 0x48, 0x53, 0x20, 0x43, 0x6C, 0x61, 0x73, 0x73, 0x69, 0x66, 0x69,
      0x63, 0x61, 0x74, 0x69, 0x6F, 0x6E, 0x29, 0x3A, 0x20, 0xD574, 0xC678, 0x28,
      0xBBF8, 0xAD6D, 0x2F, 0x45, 0x55, 0x29, 0x20, 0x48, 0x53, 0x20, 0xBD84, 0xB958,
      0x20, 0xC0AC, 0xB840, 0xAC00, 0x20, 0xD544, 0xC694, 0xD55C, 0x20, 0xACBD, 0xC6B0, 0x2E,
      0xA, 0xA, 0xC911, 0xC694, 0x20, 0xC9C0, 0xCE68, 0x3A, 0xA, 0x31, 0x2E, 0x20,
      0xC0AC, 0xC6A9, 0xC790, 0xAC00, 0x20, 0xC9C8, 0xBB38, 0xD558, 0xB294, 0x20, 0xBB3C, 0xD488,
      0xC5D0, 0x20, 0xB300, 0xD574, 0x20, 0xAD00, 0xB828, 0xC5B4, 0x2C, 0x20, 0xC720, 0xC0AC,
      0xD488, 0xBAA9, 0x2C, 0x20, 0xB300, 0xCCB4, 0xD488, 0xBAA9, 0xB3C4, 0x20, 0xD568, 0xAED8,
      0x20, 0xACE0, 0xB824, 0xD558, 0xC5EC, 0x20, 0xAC00, 0xC7A5, 0x20, 0xC801, 0xD569, 0xD55C,
      0x20, 0x48, 0x53, 0x20, 0xCF54, 0xB4DC, 0xB97C, 0x20, 0xCC3E, 0xC544, 0xC8FC, 0xC138,
      0xC694, 0x2E, 0xA, 0x32, 0x2E, 0x20, 0xD488, 0xBAA9, 0xC758, 0x20, 0xC131, 0xBD84,
      0x2C, 0x20, 0xC6A9, 0xB3C4, 0x2C, 0x20, 0xAC00, 0xACF5, 0xC0C1, 0xD0DC, 0x20, 0xB4F1,
      0xC744, 0x20, 0xACE0, 0xB824, 0xD558, 0xC5EC, 0x20, 0xC0C1, 0xC138, 0xD788, 0x20, 0xC124,
      0xBA85, 0xD574, 0xC8FC, 0xC138, 0xC694, 0x2E, 0xA, 0x33, 0x2E, 0x20, 0xC0AC, 0xC6A9,
      0xC790, 0xAC00, 0x20, 0xD2B9, 0xC815, 0x20, 0x48, 0x53, 0x20, 0x63, 0x6F, 0x64,
      0x65, 0xB97C, 0x20, 0xC5B8, 0xAE09, 0xD558, 0xBA70, 0x20, 0xC9C8, 0xBB38, 0xD558, 0xB294,
      0x20, 0xACBD, 0xC6B0, 0x2C, 0x20, 0xB2F5, 0xBCC0, 0xC5D0, 0x20, 0xD574, 0xB2F9, 0x20,
      0x48, 0x53, 0x20, 0x63, 0x6F, 0x64, 0x65, 0x20, 0xD574, 0xC124, 0xC11C, 0x20,
      0xBD84, 0xC11D, 0x20, 0xB0B4, 0xC6A9, 0xC744, 0x20, 0xD3EC, 0xD568, 0xD558, 0xC5EC, 0x20,
      0xB2F5, 0xBCC0, 0xD574, 0xC8FC, 0xC138, 0xC694, 0x2E, 0xA, 0x34, 0x2E, 0x20, 0xAD00,
      0xB828, 0x20, 0xADDC, 0xC815, 0xC774, 0xB098, 0x20, 0xD310, 0xB840, 0xAC00, 0x20, 0xC788,
      0xB2E4, 0xBA74, 0x20, 0xD568, 0xAED8, 0x20, 0xC81C, 0xC2DC, 0xD574, 0xC8FC, 0xC138, 0xC694,
      0x2E, 0xA, 0x35, 0x2E, 0x20, 0xB2F5, 0xBCC0, 0xC740, 0x20, 0xAC04, 0xACB0, 0xD558,
      0xBA74, 0xC11C, 0xB3C4, 0x20, 0xC804, 0xBB38, 0xC801, 0xC73C, 0xB85C, 0x20, 0xC81C, 0xACF5,
      0xD574, 0xC8FC, 0xC138, 0xC694, 0x2E, 0xA, 0xA, 0xC9C0, 0xAE08, 0xAE4C, 0xC9C0, 0xC758,
      0x20, 0xB300, 0xD654, 0x3A, 0xA]"

text \<open>The string literal assigned by the new-chat button (lines 254 to 270).\<close>

definition new_chat_context :: pystr where
  "new_chat_context =
     [0xB2F9, 0xC2E0, 0xC740, 0x20, 0x48, 0x53, 0x20, 0xD488, 0xBAA9, 0xBD84, 0xB958, 0x20,
      0xC804, 0xBB38, 0xAC00, 0xB85C, 0xC11C, 0x20, 0xAD00, 0xC138, 0xCCAD, 0xC5D0, 0xC11C, 0x20,
      0xC624, 0xB79C, 0x20, 0xACBD, 0xB825, 0xC744, 0x20, 0xAC00, 0xC9C4, 0x20, 0xC804, 0xBB38,
      0xAC00, 0xC785, 0xB2C8, 0xB2E4, 0x2E, 0x20, 0xC0AC, 0xC6A9, 0xC790, 0xAC00, 0x20, 0xBB3C,
      0xC5B4, 0xBCF4, 0xB294, 0x20, 0xD488, 0xBAA9, 0xC5D0, 0x20, 0xB300, 0xD574, 0x20, 0xC544,
      0xB798, 0x20, 0xB124, 0x20, 0xAC00, 0xC9C0, 0x20, 0xC720, 0xD615, 0x20, 0xC911, 0x20,
      0xD558, 0xB098, 0xB85C, 0x20, 0xC9C8, 0xBB38, 0xC744, 0x20, 0xBD84, 0xB958, 0xD558, 0xC5EC,
      0x20, 0xB2F5, 0xBCC0, 0xD574, 0xC8FC, 0xC138, 0xC694, 0x2E, 0xA, 0xA, 0xC9C8, 0xBB38,
      0x20, 0xC720, 0xD615, 0x3A, 0xA, 0x31, 0x2E, 0x20, 0xC6F9, 0x20, 0xAC80, 0xC0C9,
      0x28, 0x57, 0x65, 0x62, 0x20, 0x53, 0x65, 0x61, 0x72, 0x63, 0x68, 0x29,
      0x3A, 0x20, 0xBB3C, 0xD488, 0xAC1C, 0xC694, 0x2C, 0x20, 0xC6A9, 0xB3C4, 0x2C, 0x20,
      0xAE30, 0xC220, 0xAC1C, 0xBC1C, 0x2C, 0x20, 0xBB34, 0xC5ED, 0xB3D9, 0xD5A5, 0x20, 0xB4F1,
      0x20, 0xC77C, 0xBC18, 0x20, 0xC815, 0xBCF4, 0x20, 0xD0D0, 0xC0C9, 0xC774, 0x20, 0xD544,
      0xC694, 0xD55C, 0x20, 0xACBD, 0xC6B0, 0x2E, 0xA, 0x32, 0x2E, 0x20, 0x48, 0x53,
      0x20, 0xBD84, 0xB958, 0x20, 0xAC80, 0xC0C9, 0x28, 0x48, 0x53, 0x20, 0x43, 0x6C,
      0x61, 0x73, 0x73, 0x69, 0x66, 0x69, 0x63, 0x61, 0x74, 0x69, 0x6F, 0x6E,
      0x20, 0x53, 0x65, 0x61, 0x72, 0x63, 0x68, 0x29, 0x3A, 0x20, 0x48, 0x53,
      0x20, 0xCF54, 0xB4DC, 0x2C, 0x20, 0xD488, 0xBAA9, 0xBD84, 0xB958, 0x2C, 0x20, 0xAD00,
      0xC138, 0x2C, 0x20, 0xC138, 0xC728, 0x20, 0xB4F1, 0x20, 0x48, 0x53, 0x20, 0xCF54,
      0xB4DC, 0x20, 0xAD00, 0xB828, 0x20, 0xC815, 0xBCF4, 0xAC00, 0x20, 0xD544, 0xC694, 0xD55C,
      0x20, 0xACBD, 0xC6B0, 0x2E, 0xA, 0x33, 0x2E, 0x20, 0x48, 0x53, 0x20, 0xD574,
      0xC124, 0xC11C, 0x20, 0xBD84, 0xC11D, 0x28, 0x48, 0x53, 0x20, 0x4D, 0x61, 0x6E,
      0x75, 0x61, 0x6C, 0x20, 0x41, 0x6E, 0x61, 0x6C, 0x79, 0x73, 0x69, 0x73,
      0x29, 0x3A, 0x20, 0x48, 0x53, 0x20, 0xD574, 0xC124, 0xC11C, 0x20, 0xBCF8, 0xBB38,
      0x20, 0xC2EC, 0xCE35, 0x20, 0xBD84, 0xC11D, 0xC774, 0x20, 0xD544, 0xC694, 0xD55C, 0x20,
      0xACBD, 0xC6B0, 0x2E, 0xA, 0x34, 0x2E, 0x20, 0xD574, 0xC678, 0x20, 0x48, 0x53,
      0x20, 0xBD84, 0xB958, 0x28, 0x4F, 0x76, 0x65, 0x72, 0x73, 0x65, 0x61, 0x73,
      0x20, 0x48, 0x53, 0x20, 0x43, 0x6C, 0x61, 0x73, 0x73, 0x69, 0x66, 0x69,
      0x63, 0x61, 0x74, 0x69, 0x6F, 0x6E, 0x29, 0x3A, 0x20, 0xD574, 0xC678, 0x28,
      0xBBF8, 0xAD6D, 0x2F, 0x45, 0x55, 0x29, 0x20, 0x48, 0x53, 0x20, 0xBD84, 0xB958,
      0x20, 0xC0AC, 0xB840, 0xAC00, 0x20, 0xD544, 0xC694, 0xD55C, 0x20, 0xACBD, 0xC6B0, 0x2E,
      0xA, 0xA, 0xC911, 0xC694, 0x20, 0xC9C0, 0xCE68, 0x3A, 0xA, 0x31, 0x2E, 0x20,
      0xC0AC, 0xC6A9, 0xC790, 0xAC00, 0x20, 0xC9C8, 0xBB38, 0xD558, 0xB294, 0x20, 0xBB3C, 0xD488,
      0xC5D0, 0x20, 0xB300, 0xD574, 0x20, 0xAD00, 0xB828, 0xC5B4, 0x2C, 0x20, 0xC720, 0xC0AC,
      0xD488, 0xBAA9, 0x2C, 0x20, 0xB300, 0xCCB4, 0xD488, 0xBAA9, 0xB3C4, 0x20, 0xD568, 0xAED8,
      0x20, 0xACE0, 0xB824, 0xD558, 0xC5EC, 0x20, 0xAC00, 0xC7A5, 0x20, 0xC801, 0xD569, 0xD55C,
      0x20, 0x48, 0x53, 0x20, 0xCF54, 0xB4DC, 0xB97C, 0x20, 0xCC3E, 0xC544, 0xC8FC, 0xC138,
      0xC694, 0x2E, 0xA, 0x32, 0x2E, 0x20, 0xD488, 0xBAA9, 0xC758, 0x20, 0xC131, 0xBD84,
      0x2C, 0x20, 0xC6A9, 0xB3C4, 0x2C, 0x20, 0xAC00, 0xACF5, 0xC0C1, 0xD0DC, 0x20, 0xB4F1,
      0xC744, 0x20, 0xACE0, 0xB824, 0xD558, 0xC5EC, 0x20, 0xC0C1, 0xC138, 0xD788, 0x20, 0xC124,
      0xBA85, 0xD574, 0xC8FC, 0xC138, 0xC694, 0x2E, 0xA, 0x33, 0x2E, 0x20, 0xC0AC, 0xC6A9,
      0xC790, 0xAC00, 0x20, 0xD2B9, 0xC815, 0x20, 0x48, 0x53, 0x20, 0x63, 0x6F, 0x64,
      0x65, 0xB97C, 0x20, 0xC5B8, 0xAE09, 0xD558, 0xBA70, 0x20, 0xC9C8, 0xBB38, 0xD558, 0xB294,
      0x20, 0xACBD, 0xC6B0, 0x2C, 0x20, 0xB2F5, 0xBCC0, 0xC5D0, 0x20, 0xD574, 0xB2F9, 0x20,
      0x48, 0x53, 0x20, 0x63, 0x6F, 0x64, 0x65, 0x20, 0xD574, 0xC124, 0xC11C, 0x20,
      0xBD84, 0xC11D, 0x20, 0xB0B4, 0xC6A9, 0xC744, 0x20, 0xD3EC, 0xD568, 0xD558, 0xC5EC, 0x20,
      0xB2F5, 0xBCC0, 0xD574, 0xC8FC, 0xC138, 0xC694, 0x2E, 0xA, 0x34, 0x2E, 0x20, 0xAD00,
      0xB828, 0x20, 0xADDC, 0xC815, 0xC774, 0xB098, 0x20, 0xD310, 0xB840, 0xAC00, 0x20, 0xC788,
      0xB2E4, 0xBA74, 0x20, 0xD568, 0xAED8, 0x20, 0xC81C, 0xC2DC, 0xD574, 0xC8FC, 0xC138, 0xC694,
      0x2E, 0xA, 0x35, 0x2E, 0x20, 0xB2F5, 0xBCC0, 0xC740, 0x20, 0xAC04, 0xACB0, 0xD558,
      0xBA74, 0xC11C, 0xB3C4, 0x20, 0xC804, 0xBB38, 0xC801, 0xC73C, 0xB85C, 0x20, 0xC81C, 0xACF5,
      0xD574, 0xC8FC, 0xC138, 0xC694, 0x2E, 0xA, 0xA, 0xC9C0, 0xAE08, 0xAE4C, 0xC9C0, 0xC758,
      0x20, 0xB300, 0xD654, 0x3A, 0xA]"

text \<open>
  The state of a fresh session after lines 50 to 74: each key is absent, so each of the
  three assignments is made.
\<close>

definition initial_session_state :: session_state where
  "initial_session_state =
     \<lparr>chat_history = [], selected_category = AI_auto_label,
      session_context = initial_context\<rparr>"

text \<open>The handler of the new-chat button (lines 251 to 271).\<close>

definition new_chat :: "session_state \<Rightarrow> session_state" where
  "new_chat st = st\<lparr>chat_history := [], session_context := new_chat_context\<rparr>"


section \<open>process\_query\_with\_real\_logging\<close>

definition category_mapping :: "(pystr \<times> pystr) list" where
  "category_mapping =
     [([0xC6F9, 0xAC80, 0xC0C9], ascii ''web_search''),
      ([0xAD6D, 0xB0B4] @ ascii ''HS'' @ [0xBD84, 0xB958, 0xC0AC, 0xB840] @ ascii '' '' @
         [0xAC80, 0xC0C9], ascii ''hs_classification''),
      ([0xD574, 0xC678] @ ascii ''HS'' @ [0xBD84, 0xB958, 0xC0AC, 0xB840, 0xAC80, 0xC0C9],
         ascii ''overseas_hs''),
      (ascii ''HS'' @ [0xD574, 0xC124, 0xC11C, 0xBD84, 0xC11D], ascii ''hs_manual''),
      (ascii ''HS'' @ [0xD574, 0xC124, 0xC11C, 0xC6D0, 0xBB38, 0xAC80, 0xC0C9],
         ascii ''hs_manual_raw'')]"

definition banner_web_search :: pystr where
  "banner_web_search =
     [0xA, 0xA] @ ascii '' +++ '' @ [0xC6F9, 0xAC80, 0xC0C9] @ ascii '' '' @ [0xC2E4, 0xC2DC] @
     ascii '' +++'' @ [0xA, 0xA]"

definition banner_hs_classification :: pystr where
  "banner_hs_classification =
     [0xA, 0xA] @ ascii '' +++ HS '' @ [0xBD84, 0xB958, 0xC0AC, 0xB840] @ ascii '' '' @
     [0xAC80, 0xC0C9] @ ascii '' '' @ [0xC2E4, 0xC2DC] @ ascii '' +++'' @ [0xA, 0xA]"

definition banner_overseas_hs :: pystr where
  "banner_overseas_hs =
     [0xA, 0xA] @ ascii '' +++ '' @ [0xD574, 0xC678] @ ascii '' HS '' @ [0xBD84, 0xB958] @
     ascii '' '' @ [0xAC80, 0xC0C9] @ ascii '' '' @ [0xC2E4, 0xC2DC] @ ascii '' +++'' @
     [0xA, 0xA]"

definition banner_hs_manual :: pystr where
  "banner_hs_manual =
     [0xA, 0xA] @ ascii '' +++ HS '' @ [0xD574, 0xC124, 0xC11C] @ ascii '' '' @
     [0xBD84, 0xC11D] @ ascii '' '' @ [0xC2E4, 0xC2DC] @ ascii '' ('' @ [0xBCD1, 0xB82C] @
     ascii '' '' @ [0xAC80, 0xC0C9] @ ascii '') +++ '' @ [0xA, 0xA]"

definition banner_hs_manual_raw :: pystr where
  "banner_hs_manual_raw =
     [0xA, 0xA] @ ascii '' +++ HS '' @ [0xD574, 0xC124, 0xC11C] @ ascii '' '' @
     [0xC6D0, 0xBB38] @ ascii '' '' @ [0xAC80, 0xC0C9] @ ascii '' '' @ [0xC2E4, 0xC2DC] @
     ascii '' +++ '' @ [0xA, 0xA]"

definition no_codes_message :: pystr where
  "no_codes_message =
     ascii ''HS '' @ [0xCF54, 0xB4DC, 0xB97C] @ ascii '' '' @ [0xCC3E, 0xC744] @ ascii '' '' @
     [0xC218] @ ascii '' '' @ [0xC5C6, 0xC2B5, 0xB2C8, 0xB2E4] @ ascii ''. 4'' @
     [0xC790, 0xB9AC] @ ascii '' HS '' @ [0xCF54, 0xB4DC, 0xB97C] @ ascii '' '' @
     [0xC785, 0xB825, 0xD574, 0xC8FC, 0xC138, 0xC694] @ ascii ''.''"

text \<open>
  Lines 131 to 146: the strategy tag \<^verbatim>\<open>q_type\<close>, from the classifier when the category
  is the automatic one and from \<^verbatim>\<open>category_mapping\<close> otherwise.
\<close>

definition resolve_q_type ::
  "'t runtime \<Rightarrow> ('t, 'm) collaborators \<Rightarrow> pystr \<Rightarrow> pystr \<Rightarrow> 't world \<Rightarrow>
     pystr result \<times> 't world" where
  "resolve_q_type rt env category user_input w =
     (if category = AI_auto_label then
        let w1 = log_actual rt (ascii ''AI'') (ascii ''Starting LLM question classification...'')
                   None w;
            start_classify = now rt w1;
            w2 = tick w1
        in case classify_question env user_input of
             Inl e \<Rightarrow> (Inl e, w2)
           | Inr q_type \<Rightarrow>
               let classify_time = float_sub rt (now rt w2) start_classify;
                   w3 = tick w2
               in (Inr q_type,
                   log_actual rt (ascii ''SUCCESS'') (ascii ''LLM classification completed'')
                     (Some (q_type @ ascii '' in '' @ format_2f rt classify_time @ ascii ''s''))
                     w3)
      else
        let q_type = dict_get category_mapping category (ascii ''hs_classification'')
        in (Inr q_type,
            log_actual rt (ascii ''INFO'') (ascii ''Question type mapped'') (Some q_type) w))"

text \<open>
  The four branches that call one handler have the same shape: log the start, read the
  clock, call the handler, put the banner in front of its answer, read the clock, log
  the success. Only \<^verbatim>\<open>handle_hs_manual_with_parallel_search\<close> can change the logger
  while it runs.
\<close>

definition call_handler ::
  "'t runtime \<Rightarrow> pystr \<Rightarrow> pystr \<Rightarrow> pystr \<Rightarrow> pystr \<Rightarrow>
     ('t world \<Rightarrow> pystr result \<times> 't world) \<Rightarrow> 't world \<Rightarrow> pystr option result \<times> 't world"
  where
  "call_handler rt start_level start_message banner done_message handler w =
     (let w1 = log_actual rt start_level start_message None w;
          ai_start = now rt w1;
          w2 = tick w1
      in case handler w2 of
           (Inl e, w3) \<Rightarrow> (Inl e, w3)
         | (Inr r, w3) \<Rightarrow>
             let answer = banner @ r;
                 ai_time = float_sub rt (now rt w3) ai_start;
                 w4 = tick w3
             in (Inr (Some answer),
                 log_actual rt (ascii ''SUCCESS'') done_message
                   (Some (format_2f rt ai_time @ ascii ''s, '' @ str_nat (length answer) @
                          ascii '' chars'')) w4))"

text \<open>Lines 178 to 191.\<close>

definition hs_manual_raw ::
  "'t runtime \<Rightarrow> ('t, 'm) collaborators \<Rightarrow> pystr \<Rightarrow> 't world \<Rightarrow>
     pystr option result \<times> 't world" where
  "hs_manual_raw rt env user_input w =
     (let w1 = log_actual rt (ascii ''SEARCH'') (ascii ''Extracting HS codes...'') None w
      in case extract_hs_codes env user_input of
           Inl e \<Rightarrow> (Inl e, w1)
         | Inr hs_codes \<Rightarrow>
             if hs_codes \<noteq> [] then
               let w2 = log_actual rt (ascii ''SUCCESS'')
                          (ascii ''Found '' @ str_nat (length hs_codes) @ ascii '' HS codes'')
                          (Some (join (ascii '', '') hs_codes)) w1;
                   w3 = log_actual rt (ascii ''DATA'')
                          (ascii ''Retrieving raw HS explanations...'') None w2;
                   raw_start = now rt w3;
                   w4 = tick w3
               in case get_hs_explanations env hs_codes of
                    Inl e \<Rightarrow> (Inl e, w4)
                  | Inr raw \<Rightarrow>
                      (case clean_text env raw of
                         Inl e \<Rightarrow> (Inl e, w4)
                       | Inr raw_answer \<Rightarrow>
                           let raw_time = float_sub rt (now rt w4) raw_start;
                               w5 = tick w4;
                               answer = banner_hs_manual_raw @ raw_answer
                           in (Inr (Some answer),
                               log_actual rt (ascii ''SUCCESS'') (ascii ''Raw HS manual retrieved'')
                                 (Some (format_2f rt raw_time @ ascii ''s, '' @
                                        str_nat (length raw_answer) @ ascii '' chars'')) w5))
             else
               (Inr (Some no_codes_message),
                log_actual rt (ascii ''ERROR'') (ascii ''No valid HS codes found in input'')
                  None w1))"

text \<open>
  Lines 150 to 191: the chain of \<^verbatim>\<open>if\<close>/\<^verbatim>\<open>elif\<close> on \<^verbatim>\<open>q_type\<close>. It has no \<^verbatim>\<open>else\<close>:
  for any other tag the local variable \<^verbatim>\<open>answer\<close> stays unassigned, which is the
  result \<open>None\<close>.
\<close>

definition dispatch ::
  "'t runtime \<Rightarrow> ('t, 'm) collaborators \<Rightarrow> pystr \<Rightarrow> pystr \<Rightarrow> pystr \<Rightarrow> 'm \<Rightarrow> 't world \<Rightarrow>
     pystr option result \<times> 't world" where
  "dispatch rt env q_type user_input ctx hs_manager w =
     (if q_type = ascii ''web_search'' then
        call_handler rt (ascii ''SEARCH'') (ascii ''Initiating Google Search API call...'')
          banner_web_search (ascii ''Web search completed'')
          (\<lambda>w'. (handle_web_search env user_input ctx hs_manager, w')) w
      else if q_type = ascii ''hs_classification'' then
        call_handler rt (ascii ''AI'') (ascii ''Starting domestic HS classification search...'')
          banner_hs_classification (ascii ''Domestic HS classification completed'')
          (\<lambda>w'. (handle_hs_classification_cases env user_input ctx hs_manager, w')) w
      else if q_type = ascii ''overseas_hs'' then
        call_handler rt (ascii ''AI'') (ascii ''Starting overseas HS classification search...'')
          banner_overseas_hs (ascii ''Overseas HS classification completed'')
          (\<lambda>w'. (handle_overseas_hs env user_input ctx hs_manager, w')) w
      else if q_type = ascii ''hs_manual'' then
        call_handler rt (ascii ''AI'') (ascii ''Starting enhanced parallel HS manual analysis...'')
          banner_hs_manual (ascii ''Enhanced HS manual analysis completed'')
          (handle_hs_manual_with_parallel_search env user_input ctx hs_manager) w
      else if q_type = ascii ''hs_manual_raw'' then
        hs_manual_raw rt env user_input w
      else (Inr None, w))"

text \<open>
  Lines 193 to 200. The f-string of line 194 reads \<^verbatim>\<open>answer\<close>: when it was never
  assigned, Python raises \<^verbatim>\<open>UnboundLocalError\<close> before \<^verbatim>\<open>log_actual\<close> is called.
\<close>

definition finish ::
  "'t runtime \<Rightarrow> 't \<Rightarrow> pystr option \<Rightarrow> 't world \<Rightarrow> pystr result \<times> 't world" where
  "finish rt answer_start answer_var w =
     (let answer_time = float_sub rt (now rt w) answer_start;
          w1 = tick w
      in case answer_var of
           None \<Rightarrow>
             (Inl \<lparr>exc_str = unbound_local_message rt,
                   exc_type_name = ascii ''UnboundLocalError''\<rparr>, w1)
         | Some answer \<Rightarrow>
             let w2 = log_actual rt (ascii ''SUCCESS'') (ascii ''Answer generation completed'')
                        (Some (format_2f rt answer_time @ ascii ''s, '' @
                               str_nat (length answer) @ ascii '' chars'')) w1;
                 total_time = float_sub rt (now rt w2) (start_time w2);
                 w3 = tick w2
             in (Inr answer,
                 log_actual rt (ascii ''INFO'') (ascii ''Process completed successfully'')
                   (Some (ascii ''Total time: '' @ format_2f rt total_time @ ascii ''s'')) w3))"

text \<open>
  Lines 121 to 148: everything before the \<^verbatim>\<open>if\<close>/\<^verbatim>\<open>elif\<close> chain. The result holds
  the three local variables the rest of the function reads: \<^verbatim>\<open>hs_manager\<close>,
  \<^verbatim>\<open>q_type\<close> and \<^verbatim>\<open>answer_start\<close>.
\<close>

definition prepare ::
  "'t runtime \<Rightarrow> ('t, 'm) collaborators \<Rightarrow> session_state \<Rightarrow> pystr \<Rightarrow> 't world \<Rightarrow>
     ('m \<times> pystr \<times> 't) result \<times> 't world" where
  "prepare rt env st user_input w =
     (let w1 = log_actual rt (ascii ''INFO'') (ascii ''Query processing started'')
                 (Some (ascii ''Input length: '' @ str_nat (length user_input))) w;
          start_time' = now rt w1;
          w2 = tick w1
      in case get_hs_manager env of
           Inl e \<Rightarrow> (Inl e, w2)
         | Inr hs_manager \<Rightarrow>
             let load_time = float_sub rt (now rt w2) start_time';
                 w3 = tick w2;
                 w4 = log_actual rt (ascii ''SUCCESS'') (ascii ''HSDataManager loaded'')
                        (Some (format_2f rt load_time @ ascii ''s'')) w3;
                 category = selected_category st;
                 w5 = log_actual rt (ascii ''INFO'') (ascii ''Category selected'')
                        (Some category) w4
             in (case resolve_q_type rt env category user_input w5 of
                   (Inl e, w6) \<Rightarrow> (Inl e, w6)
                 | (Inr q_type, w6) \<Rightarrow>
                     let answer_start = now rt w6;
                         w7 = tick w6
                     in (Inr (hs_manager, q_type, answer_start), w7)))"

text \<open>Lines 121 to 200: the body of the \<^verbatim>\<open>try\<close> block.\<close>

definition try_body ::
  "'t runtime \<Rightarrow> ('t, 'm) collaborators \<Rightarrow> session_state \<Rightarrow> pystr \<Rightarrow> 't world \<Rightarrow>
     pystr result \<times> 't world" where
  "try_body rt env st user_input w =
     (case prepare rt env st user_input w of
        (Inl e, w7) \<Rightarrow> (Inl e, w7)
      | (Inr (hs_manager, q_type, answer_start), w7) \<Rightarrow>
          (case dispatch rt env q_type user_input (session_context st) hs_manager w7 of
             (Inl e, w8) \<Rightarrow> (Inl e, w8)
           | (Inr answer_var, w8) \<Rightarrow> finish rt answer_start answer_var w8))"

text \<open>Lines 202 to 205: the handler of \<^verbatim>\<open>except Exception as e\<close>.\<close>

definition on_exception :: "'t runtime \<Rightarrow> py_exception \<Rightarrow> 't world \<Rightarrow> 't world" where
  "on_exception rt e w =
     (let w1 = log_actual rt (ascii ''ERROR'') (ascii ''Exception occurred: '' @ exc_str e)
                 None w
      in log_actual rt (ascii ''ERROR'') (ascii ''Error type: '' @ exc_type_name e) None w1)"

text \<open>
  The whole function: the answer it returns or the exception it raises, with the final
  state of its logger. The logger is constructed at the first clock reading of the query.
\<close>

definition process_query_with_real_logging ::
  "'t runtime \<Rightarrow> ('t, 'm) collaborators \<Rightarrow> session_state \<Rightarrow> pystr \<Rightarrow>
     pystr result \<times> 't world" where
  "process_query_with_real_logging rt env st user_input =
     (let logger = RealTimeProcessLogger_init rt 0
      in case try_body rt env st user_input logger of
           (Inr answer, w) \<Rightarrow> (Inr answer, w)
         | (Inl e, w) \<Rightarrow> (Inl e, on_exception rt e w))"


section \<open>The query form and the operations of a session\<close>

definition user_label :: pystr where
  "user_label = [0xA, 0xC0AC, 0xC6A9, 0xC790] @ ascii '': ''"

definition expert_label :: pystr where
  "expert_label =
     [0xA, 0xD488, 0xBAA9, 0xBD84, 0xB958] @ ascii '' '' @ [0xC804, 0xBB38, 0xAC00] @ ascii '': ''"

text \<open>Lines 332 to 334: the three updates after a successful query.\<close>

definition append_turn :: "pystr \<Rightarrow> pystr \<Rightarrow> session_state \<Rightarrow> session_state" where
  "append_turn user_input answer st =
     (let st1 = st\<lparr>chat_history :=
                    chat_history st @ [\<lparr>role = ascii ''user'', content = user_input\<rparr>]\<rparr>;
          st2 = st1\<lparr>chat_history :=
                    chat_history st1 @ [\<lparr>role = ascii ''assistant'', content = answer\<rparr>]\<rparr>
      in st2\<lparr>session_context :=
               session_context st2 @ user_label @ user_input @ expert_label @ answer @ [0xA]\<rparr>)"

text \<open>
  Lines 325 to 340 with the submit button pressed. A raised exception is caught and
  shown with \<^verbatim>\<open>st.error\<close>, which does not touch the session state.
\<close>

definition query_form_submit ::
  "'t runtime \<Rightarrow> ('t, 'm) collaborators \<Rightarrow> pystr \<Rightarrow> session_state \<Rightarrow> session_state" where
  "query_form_submit rt env user_input st =
     (if user_input \<noteq> [] \<and> py_strip user_input \<noteq> [] then
        case fst (process_query_with_real_logging rt env st user_input) of
          Inr answer \<Rightarrow> append_turn user_input answer st
        | Inl e \<Rightarrow> st
      else st)"

text \<open>
  What a user can do to a session: submit the form (the clock and the collaborators'
  behaviour during that query come with it), press the new-chat button, or pick a
  category with the radio button.
\<close>

datatype ('t, 'm) operation =
    Submit "'t runtime" "('t, 'm) collaborators" pystr
  | New_chat
  | Select_category pystr

fun apply_operation :: "session_state \<Rightarrow> ('t, 'm) operation \<Rightarrow> session_state" where
  "apply_operation st (Submit rt env user_input) = query_form_submit rt env user_input st"
| "apply_operation st New_chat = new_chat st"
| "apply_operation st (Select_category c) = st\<lparr>selected_category := c\<rparr>"

definition run_session :: "('t, 'm) operation list \<Rightarrow> session_state" where
  "run_session ops = foldl apply_operation initial_session_state ops"


section \<open>Observations on the log and sample inputs\<close>

text \<open>
  The level and the message of every entry of \<^verbatim>\<open>logger.logs\<close>, in order, and those
  among them whose level is \<^verbatim>\<open>ERROR\<close>.
\<close>

definition log_summary :: "'t world \<Rightarrow> (pystr \<times> pystr) list" where
  "log_summary w = map (\<lambda>x. (log_level x, log_message x)) (logs w)"

definition error_entries :: "'t world \<Rightarrow> (pystr \<times> pystr) list" where
  "error_entries w = filter (\<lambda>x. fst x = ascii ''ERROR'') (log_summary w)"

text \<open>
  A sample clock (a reading every quarter second, times counted in hundredths of a
  second), a sample failure and sample collaborators: the web search raises, the
  classifier answers with a tag the program does not know, the code extraction finds
  nothing.
\<close>

definition example_runtime :: "int runtime" where
  "example_runtime =
     \<lparr>time_time = (\<lambda>k. 25 * int k),
      datetime_now = (\<lambda>k. ascii ''09:30:00.'' @ str_nat (100000 + k)),
      float_sub = (\<lambda>a b. a - b),
      format_2f = (\<lambda>t. str_nat (nat (t div 100)) @ ascii ''.'' @
                      str_nat (nat (t mod 100 div 10)) @ str_nat (nat (t mod 10))),
      unbound_local_message = ascii ''local variable referenced before assignment''\<rparr>"

definition example_failure :: py_exception where
  "example_failure =
     \<lparr>exc_str = ascii ''connection refused'', exc_type_name = ascii ''ConnectionError''\<rparr>"

definition example_collaborators :: "(int, unit) collaborators" where
  "example_collaborators =
     \<lparr>HSDataManager = Inr (),
      classify_question = (\<lambda>q. Inr (ascii ''tariff_advice'')),
      handle_web_search = (\<lambda>q c m. Inl example_failure),
      handle_hs_classification_cases = (\<lambda>q c m. Inr (ascii ''8471.30'')),
      handle_overseas_hs = (\<lambda>q c m. Inr (ascii ''CBP ruling'')),
      handle_hs_manual_with_parallel_search = (\<lambda>q c m w. (Inr (ascii ''heading note''), w)),
      extract_hs_codes = (\<lambda>q. Inr []),
      get_hs_explanations = (\<lambda>cs. Inr (join (ascii '', '') cs)),
      clean_text = (\<lambda>s. Inr s)\<rparr>"

definition example_session :: "pystr \<Rightarrow> session_state" where
  "example_session category = initial_session_state\<lparr>selected_category := category\<rparr>"


section \<open>Facts about the logger\<close>

lemma foldl_append_concat: "foldl (\<lambda>acc x. acc @ f x) a xs = a @ concat (map f xs)"
  by (induction xs arbitrary: a) simp_all

lemma length_last8: "length (last8 xs) = min 8 (length xs)"
  by (simp add: last8_def)

lemma last8_suffix: "take (length xs - 8) xs @ last8 xs = xs"
  by (simp add: last8_def)

lemma logs_update_display [simp]: "logs (update_display w) = logs w"
  by (simp add: update_display_def)

lemma start_time_update_display [simp]: "start_time (update_display w) = start_time w"
  by (simp add: update_display_def)

lemma clock_reads_update_display [simp]: "clock_reads (update_display w) = clock_reads w"
  by (simp add: update_display_def)

lemma placeholder_update_display:
  "log_placeholder (update_display w) = Some (concat (map format_entry (last8 (logs w))))"
  by (simp add: update_display_def foldl_append_concat)

lemma logs_log_actual:
  "logs (log_actual rt level message data w) =
     logs w @
     [\<lparr>log_time = drop_last3 (datetime_now rt (Suc (clock_reads w))),
       log_elapsed =
         format_2f rt (float_sub rt (time_time rt (clock_reads w)) (start_time w)) @ ascii ''s'',
       log_level = level, log_message = message, log_data = data\<rparr>]"
  by (simp add: log_actual_def Let_def tick_def now_def)

lemma start_time_log_actual [simp]:
  "start_time (log_actual rt level message data w) = start_time w"
  by (simp add: log_actual_def Let_def tick_def)

lemma clock_reads_log_actual [simp]:
  "clock_reads (log_actual rt level message data w) = clock_reads w + 2"
  by (simp add: log_actual_def Let_def tick_def)

lemma placeholder_log_actual:
  "log_placeholder (log_actual rt level message data w) =
     Some (concat (map format_entry (last8 (logs (log_actual rt level message data w)))))"
  by (simp add: log_actual_def Let_def placeholder_update_display)

lemma logs_tick [simp]: "logs (tick w) = logs w"
  by (simp add: tick_def)

lemma start_time_tick [simp]: "start_time (tick w) = start_time w"
  by (simp add: tick_def)

lemma length_logs_step:
  "length (logs (logger_step rt w c)) = (if is_record_call c then Suc (length (logs w)) else 0)"
  by (cases c) (simp_all add: logs_log_actual clear_def)

lemma start_time_step [simp]: "start_time (logger_step rt w c) = start_time w"
  by (cases c) (simp_all add: clear_def)

lemma logger_run_snoc:
  "logger_run rt (calls @ [c]) w = logger_step rt (logger_run rt calls w) c"
  by (simp add: logger_run_def)

lemma start_time_run [simp]: "start_time (logger_run rt calls w) = start_time w"
  by (induction calls rule: rev_induct) (simp_all add: logger_run_snoc, simp add: logger_run_def)

lemma length_logs_run:
  "length (logs (logger_run rt calls w)) =
     (if list_all is_record_call calls then length (logs w) + length calls
      else records_since_reset calls)"
proof (induction calls rule: rev_induct)
  case Nil
  show ?case by (simp add: logger_run_def)
next
  case (snoc c calls)
  show ?case
    by (cases "is_record_call c")
       (simp_all add: logger_run_snoc length_logs_step snoc records_since_reset_def)
qed

lemma records_since_reset_all:
  "list_all is_record_call calls \<Longrightarrow> records_since_reset calls = length calls"
proof -
  assume "list_all is_record_call calls"
  then have "takeWhile is_record_call (rev calls) = rev calls"
    by (simp add: list_all_iff)
  then show ?thesis unfolding records_since_reset_def by (simp only: length_rev)
qed

lemma logger_run_Cons: "logger_run rt (c # calls) w = logger_run rt calls (logger_step rt w c)"
  by (simp add: logger_run_def)

lemma entry_args_record [simp]:
  "entry_args \<lparr>log_time = t, log_elapsed = el, log_level = level, log_message = message,
                 log_data = data\<rparr> = (level, message, data)"
  by (simp add: entry_args_def)

lemma entry_args_run:
  "map entry_args (logs (logger_run rt calls w)) = recorded (map entry_args (logs w)) calls"
proof (induction calls arbitrary: w)
  case Nil
  show ?case by (simp add: logger_run_def)
next
  case (Cons c calls)
  show ?case
    by (cases c) (simp_all add: logger_run_Cons Cons logs_log_actual clear_def)
qed

lemma clock_reads_run:
  "clock_reads (logger_run rt calls w) =
     clock_reads w + 2 * length (filter is_record_call calls)"
proof (induction calls arbitrary: w)
  case Nil
  show ?case by (simp add: logger_run_def)
next
  case (Cons c calls)
  show ?case
    by (cases c) (simp_all add: logger_run_Cons Cons clear_def)
qed

lemma placeholder_run_snoc:
  "log_placeholder (logger_run rt (calls @ [c]) w) =
     (case c of
        Clear \<Rightarrow> None
      | Log_actual level message data \<Rightarrow>
          Some (concat (map format_entry (last8 (logs (logger_run rt (calls @ [c]) w))))))"
  by (cases c) (simp_all add: logger_run_snoc placeholder_log_actual clear_def)


section \<open>The logger: what is kept and what is shown\<close>

text \<open>
  C3. \<^verbatim>\<open>log_actual\<close> appends its entry at the end of \<^verbatim>\<open>self.logs\<close> and keeps all
  earlier entries, so after any sequence of \<^verbatim>\<open>log_actual\<close> and \<^verbatim>\<open>clear\<close> calls on a freshly
  constructed logger \<^verbatim>\<open>self.logs\<close> holds, oldest first, exactly the entries of the
  \<^verbatim>\<open>log_actual\<close> calls made since construction or the last \<^verbatim>\<open>clear\<close>, and its length is
  their number. \<^verbatim>\<open>update_display\<close> shows the formatted entries of \<^verbatim>\<open>self.logs[-8:]\<close> and
  nothing else: this is the stored list without its first \<open>n - 8\<close> entries, hence the
  entries of the last \<open>min 8 n\<close> calls, at most eight; the stored list is not changed by
  the display, and every \<^verbatim>\<open>log_actual\<close> ends with that display.
\<close>

theorem render_shows_last_eight_and_logs_count_records:
  "length (logs (logger_run rt calls (RealTimeProcessLogger_init rt n))) =
     records_since_reset calls
   \<and> log_placeholder (update_display w) = Some (concat (map format_entry (last8 (logs w))))
   \<and> length (last8 (logs w)) = min 8 (length (logs w))
   \<and> length (last8 (logs w)) \<le> 8
   \<and> take (length (logs w) - 8) (logs w) @ last8 (logs w) = logs w
   \<and> logs (update_display w) = logs w
   \<and> log_placeholder (log_actual rt level message data w) =
       Some (concat (map format_entry (last8 (logs (log_actual rt level message data w)))))
   \<and> length (logs (log_actual rt level message data w)) = Suc (length (logs w))
   \<and> logs (log_actual rt level message data w) =
       logs w @
       [\<lparr>log_time = drop_last3 (datetime_now rt (Suc (clock_reads w))),
         log_elapsed =
           format_2f rt (float_sub rt (time_time rt (clock_reads w)) (start_time w)) @
           ascii ''s'',
         log_level = level, log_message = message, log_data = data\<rparr>]
   \<and> last8 (logs w) = drop (length (logs w) - 8) (logs w)
   \<and> map entry_args (logs (logger_run rt calls (RealTimeProcessLogger_init rt n))) =
       recorded [] calls
   \<and> length (recorded [] calls) = records_since_reset calls
   \<and> log_placeholder (logger_run rt (calls @ [Log_actual level message data])
         (RealTimeProcessLogger_init rt n)) =
       Some (concat (map format_entry
         (last8 (logs (logger_run rt (calls @ [Log_actual level message data])
                         (RealTimeProcessLogger_init rt n))))))
   \<and> map entry_args
         (last8 (logs (logger_run rt calls (RealTimeProcessLogger_init rt n)))) =
       drop (length (recorded [] calls) - 8) (recorded [] calls)"
proof -
  let ?w0 = "RealTimeProcessLogger_init rt n"
  have len: "length (logs (logger_run rt calls ?w0)) = records_since_reset calls"
    by (simp add: length_logs_run records_since_reset_all RealTimeProcessLogger_init_def)
  have le: "length (last8 (logs w)) \<le> 8"
    by (simp add: length_last8)
  have args: "map entry_args (logs (logger_run rt calls ?w0)) = recorded [] calls"
    by (simp add: entry_args_run RealTimeProcessLogger_init_def)
  have len_args: "length (recorded [] calls) = records_since_reset calls"
    using len args by (metis length_map)
  have shown: "map entry_args (last8 (logs (logger_run rt calls ?w0))) =
                 drop (length (recorded [] calls) - 8) (recorded [] calls)"
    using args len len_args by (simp add: last8_def drop_map [symmetric])
  have placeholder:
    "log_placeholder (logger_run rt (calls @ [Log_actual level message data]) ?w0) =
       Some (concat (map format_entry
         (last8 (logs (logger_run rt (calls @ [Log_actual level message data]) ?w0)))))"
    by (simp add: placeholder_run_snoc)
  have tail: "last8 (logs w) = drop (length (logs w) - 8) (logs w)"
    by (simp add: last8_def)
  show ?thesis
    using len le args len_args shown placeholder tail
    by (simp add: placeholder_update_display length_last8 last8_suffix
          placeholder_log_actual logs_log_actual)
qed

text \<open>
  C7. \<^verbatim>\<open>clear\<close> empties \<^verbatim>\<open>self.logs\<close> and the placeholder and leaves
  \<^verbatim>\<open>self.start_time\<close> and the clock alone. Whatever calls were made on a logger, its
  \<^verbatim>\<open>start_time\<close> is still the clock reading of its construction. Hence the entry that
  any \<^verbatim>\<open>log_actual\<close> appends, directly after a \<^verbatim>\<open>clear\<close>, any number of calls after a
  \<^verbatim>\<open>clear\<close>, or with no \<^verbatim>\<open>clear\<close> at all, has as elapsed time the clock reading of that
  call minus the reading at construction; the reading of the call is the one after the
  construction's and the two of each earlier \<^verbatim>\<open>log_actual\<close>.
\<close>

theorem clear_keeps_elapsed_origin:
  "logs (clear w) = []
   \<and> log_placeholder (clear w) = None
   \<and> start_time (clear w) = start_time w
   \<and> start_time (logger_run rt calls (RealTimeProcessLogger_init rt n)) = time_time rt n
   \<and> logs (log_actual rt level message data
             (logger_run rt (calls @ [Clear]) (RealTimeProcessLogger_init rt n))) =
       [\<lparr>log_time =
           drop_last3 (datetime_now rt (Suc (clock_reads
             (logger_run rt (calls @ [Clear]) (RealTimeProcessLogger_init rt n))))),
         log_elapsed =
           format_2f rt (float_sub rt
             (time_time rt (clock_reads
                (logger_run rt (calls @ [Clear]) (RealTimeProcessLogger_init rt n))))
             (time_time rt n)) @ ascii ''s'',
         log_level = level, log_message = message, log_data = data\<rparr>]
   \<and> logs (log_actual rt level message data
             (logger_run rt (calls @ [Clear] @ calls') (RealTimeProcessLogger_init rt n))) =
       logs (logger_run rt (calls @ [Clear] @ calls') (RealTimeProcessLogger_init rt n)) @
       [\<lparr>log_time =
           drop_last3 (datetime_now rt
             (Suc (Suc n + 2 * length (filter is_record_call (calls @ [Clear] @ calls'))))),
         log_elapsed =
           format_2f rt (float_sub rt
             (time_time rt (Suc n + 2 * length (filter is_record_call (calls @ [Clear] @ calls'))))
             (time_time rt n)) @ ascii ''s'',
         log_level = level, log_message = message, log_data = data\<rparr>]
   \<and> logs (log_actual rt level message data
             (logger_run rt calls (RealTimeProcessLogger_init rt n))) =
       logs (logger_run rt calls (RealTimeProcessLogger_init rt n)) @
       [\<lparr>log_time =
           drop_last3 (datetime_now rt
             (Suc (Suc n + 2 * length (filter is_record_call calls)))),
         log_elapsed =
           format_2f rt (float_sub rt
             (time_time rt (Suc n + 2 * length (filter is_record_call calls)))
             (time_time rt n)) @ ascii ''s'',
         log_level = level, log_message = message, log_data = data\<rparr>]
   \<and> clock_reads (logger_run rt calls (RealTimeProcessLogger_init rt n)) =
       Suc n + 2 * length (filter is_record_call calls)
   \<and> clock_reads (clear w) = clock_reads w"
proof -
  let ?w0 = "RealTimeProcessLogger_init rt n"
  have origin: "start_time (logger_run rt cs ?w0) = time_time rt n" for cs
    by (simp add: RealTimeProcessLogger_init_def)
  have reads: "clock_reads (logger_run rt cs ?w0) =
                 Suc n + 2 * length (filter is_record_call cs)" for cs
    by (simp add: clock_reads_run RealTimeProcessLogger_init_def)
  have emptied: "logs (logger_run rt (calls @ [Clear]) ?w0) = []"
    by (simp add: logger_run_snoc clear_def)
  have general: "logs (log_actual rt level message data (logger_run rt cs ?w0)) =
       logs (logger_run rt cs ?w0) @
       [\<lparr>log_time =
           drop_last3 (datetime_now rt (Suc (Suc n + 2 * length (filter is_record_call cs)))),
         log_elapsed =
           format_2f rt (float_sub rt
             (time_time rt (Suc n + 2 * length (filter is_record_call cs)))
             (time_time rt n)) @ ascii ''s'',
         log_level = level, log_message = message, log_data = data\<rparr>]" for cs
    by (simp only: logs_log_actual origin reads)
  have after_clear: "logs (log_actual rt level message data
             (logger_run rt (calls @ [Clear]) ?w0)) =
       [\<lparr>log_time =
           drop_last3 (datetime_now rt (Suc (clock_reads (logger_run rt (calls @ [Clear]) ?w0)))),
         log_elapsed =
           format_2f rt (float_sub rt
             (time_time rt (clock_reads (logger_run rt (calls @ [Clear]) ?w0)))
             (time_time rt n)) @ ascii ''s'',
         log_level = level, log_message = message, log_data = data\<rparr>]"
    by (simp only: logs_log_actual origin emptied append_Nil)
  show ?thesis
    using origin [of calls] reads [of calls] general [of calls]
      general [of "calls @ [Clear] @ calls'"] after_clear
    by (simp add: clear_def)
qed

text \<open>
  C8. The text \<^verbatim>\<open>update_display\<close> adds for one entry: the time between backticks, a
  space, the elapsed time after a plus sign between backticks, a space, the icon of the
  level (one of six, the memo icon for any other level), a space, the message, then
  \<^verbatim>\<open> | \<close> and the data unless the data is \<^verbatim>\<open>None\<close> or the empty string, then two
  newlines.
\<close>

theorem format_entry_layout:
  "format_entry \<lparr>log_time = t, log_elapsed = el, log_level = lv, log_message = msg,
                  log_data = d\<rparr> =
     [0x60] @ t @ [0x60, 0x20, 0x60, 0x2B] @ el @ [0x60, 0x20] @
     (if lv = ascii ''INFO'' then [0x2139, 0xFE0F]
      else if lv = ascii ''SUCCESS'' then [0x2705]
      else if lv = ascii ''ERROR'' then [0x274C]
      else if lv = ascii ''DATA'' then [0x1F4CA]
      else if lv = ascii ''AI'' then [0x1F916]
      else if lv = ascii ''SEARCH'' then [0x1F50D]
      else [0x1F4DD]) @
     [0x20] @ msg @
     (case d of None \<Rightarrow> [] | Some x \<Rightarrow> if x = [] then [] else [0x20, 0x7C, 0x20] @ x) @
     [0xA, 0xA]"
  by (simp add: format_entry_def dict_get_def icons_def ascii_def split: option.split)


section \<open>The session state\<close>

text \<open>
  C5. The new-chat button leaves the session with an empty \<^verbatim>\<open>chat_history\<close> and with a
  \<^verbatim>\<open>context\<close> equal, code point for code point, to the \<^verbatim>\<open>context\<close> a fresh session is
  given: the two string literals of the source are the same string.
\<close>

theorem new_chat_restores_initial_context:
  "session_context (new_chat st) = session_context initial_session_state
   \<and> session_context (new_chat st) = initial_context
   \<and> chat_history (new_chat st) = []
   \<and> chat_history (new_chat st) = chat_history initial_session_state"
  by (simp add: new_chat_def initial_session_state_def new_chat_context_def initial_context_def)


section \<open>Facts about the steps of a query\<close>

lemma levels_not_error [simp]:
  "ascii ''INFO'' \<noteq> ascii ''ERROR''" "ascii ''SUCCESS'' \<noteq> ascii ''ERROR''"
  "ascii ''AI'' \<noteq> ascii ''ERROR''" "ascii ''SEARCH'' \<noteq> ascii ''ERROR''"
  "ascii ''DATA'' \<noteq> ascii ''ERROR''"
  by (simp_all add: ascii_def)

lemma tags_distinct [simp]:
  "ascii ''hs_classification'' \<noteq> ascii ''web_search''"
  "ascii ''overseas_hs'' \<noteq> ascii ''web_search''"
  "ascii ''overseas_hs'' \<noteq> ascii ''hs_classification''"
  "ascii ''hs_manual'' \<noteq> ascii ''web_search''"
  "ascii ''hs_manual'' \<noteq> ascii ''hs_classification''"
  "ascii ''hs_manual'' \<noteq> ascii ''overseas_hs''"
  "ascii ''hs_manual_raw'' \<noteq> ascii ''web_search''"
  "ascii ''hs_manual_raw'' \<noteq> ascii ''hs_classification''"
  "ascii ''hs_manual_raw'' \<noteq> ascii ''overseas_hs''"
  "ascii ''hs_manual_raw'' \<noteq> ascii ''hs_manual''"
  by (simp_all add: ascii_def)

lemma fst_resolve_q_type:
  "fst (resolve_q_type rt env category user_input w) =
     (if category = AI_auto_label then classify_question env user_input
      else Inr (dict_get category_mapping category (ascii ''hs_classification'')))"
  by (simp add: resolve_q_type_def Let_def split: sum.split)

lemma log_summary_log_actual [simp]:
  "log_summary (log_actual rt level message data w) = log_summary w @ [(level, message)]"
  by (simp add: log_summary_def logs_log_actual)

lemma log_summary_tick [simp]: "log_summary (tick w) = log_summary w"
  by (simp add: log_summary_def)

lemma log_summary_init [simp]: "log_summary (RealTimeProcessLogger_init rt n) = []"
  by (simp add: log_summary_def RealTimeProcessLogger_init_def)

lemma log_summary_resolve:
  "log_summary (snd (resolve_q_type rt env category user_input w)) =
     log_summary w @
     (if category = AI_auto_label then
        (ascii ''AI'', ascii ''Starting LLM question classification...'') #
        (case classify_question env user_input of
           Inl e \<Rightarrow> []
         | Inr q \<Rightarrow> [(ascii ''SUCCESS'', ascii ''LLM classification completed'')])
      else [(ascii ''INFO'', ascii ''Question type mapped'')])"
  by (simp add: resolve_q_type_def Let_def split: sum.split)

lemma log_summary_prepare:
  "log_summary (snd (prepare rt env st user_input w)) =
     log_summary w @ (ascii ''INFO'', ascii ''Query processing started'') #
     (case HSDataManager env of
        Inl e \<Rightarrow> []
      | Inr m \<Rightarrow>
          [(ascii ''SUCCESS'', ascii ''HSDataManager loaded''),
           (ascii ''INFO'', ascii ''Category selected'')] @
          (if selected_category st = AI_auto_label then
             (ascii ''AI'', ascii ''Starting LLM question classification...'') #
             (case classify_question env user_input of
                Inl e \<Rightarrow> []
              | Inr q \<Rightarrow> [(ascii ''SUCCESS'', ascii ''LLM classification completed'')])
           else [(ascii ''INFO'', ascii ''Question type mapped'')]))"
  by (simp add: prepare_def get_hs_manager_def Let_def split_beta log_summary_resolve
        fst_resolve_q_type split: sum.split)

lemma fst_call_handler:
  "fst (call_handler rt start_level start_message banner done_message handler w) =
     (case fst (handler (tick (log_actual rt start_level start_message None w))) of
        Inl e \<Rightarrow> Inl e
      | Inr r \<Rightarrow> Inr (Some (banner @ r)))"
  by (simp add: call_handler_def Let_def split_beta split: sum.split)

lemma log_summary_call_handler:
  "log_summary (snd (call_handler rt start_level start_message banner done_message handler w)) =
     log_summary (snd (handler (tick (log_actual rt start_level start_message None w)))) @
     (case fst (handler (tick (log_actual rt start_level start_message None w))) of
        Inl e \<Rightarrow> []
      | Inr r \<Rightarrow> [(ascii ''SUCCESS'', done_message)])"
  by (simp add: call_handler_def Let_def split_beta split: sum.split)

lemma fst_hs_manual_raw:
  "fst (hs_manual_raw rt env user_input w) =
     (case extract_hs_codes env user_input of
        Inl e \<Rightarrow> Inl e
      | Inr hs_codes \<Rightarrow>
          if hs_codes \<noteq> [] then
            (case get_hs_explanations env hs_codes of
               Inl e \<Rightarrow> Inl e
             | Inr raw \<Rightarrow>
                 (case clean_text env raw of
                    Inl e \<Rightarrow> Inl e
                  | Inr raw_answer \<Rightarrow> Inr (Some (banner_hs_manual_raw @ raw_answer))))
          else Inr (Some no_codes_message))"
  by (simp add: hs_manual_raw_def Let_def split: sum.split)

lemma log_summary_hs_manual_raw:
  "log_summary (snd (hs_manual_raw rt env user_input w)) =
     log_summary w @ (ascii ''SEARCH'', ascii ''Extracting HS codes...'') #
     (case extract_hs_codes env user_input of
        Inl e \<Rightarrow> []
      | Inr hs_codes \<Rightarrow>
          if hs_codes \<noteq> [] then
            (ascii ''SUCCESS'', ascii ''Found '' @ str_nat (length hs_codes) @ ascii '' HS codes'') #
            (ascii ''DATA'', ascii ''Retrieving raw HS explanations...'') #
            (case get_hs_explanations env hs_codes of
               Inl e \<Rightarrow> []
             | Inr raw \<Rightarrow>
                 (case clean_text env raw of
                    Inl e \<Rightarrow> []
                  | Inr raw_answer \<Rightarrow> [(ascii ''SUCCESS'', ascii ''Raw HS manual retrieved'')]))
          else [(ascii ''ERROR'', ascii ''No valid HS codes found in input'')])"
  by (simp add: hs_manual_raw_def Let_def split: sum.split)

lemma fst_finish:
  "fst (finish rt answer_start answer_var w) =
     (case answer_var of
        None \<Rightarrow> Inl \<lparr>exc_str = unbound_local_message rt,
                      exc_type_name = ascii ''UnboundLocalError''\<rparr>
      | Some answer \<Rightarrow> Inr answer)"
  by (simp add: finish_def Let_def split: option.split)

lemma log_summary_finish:
  "log_summary (snd (finish rt answer_start answer_var w)) =
     log_summary w @
     (case answer_var of
        None \<Rightarrow> []
      | Some answer \<Rightarrow>
          [(ascii ''SUCCESS'', ascii ''Answer generation completed''),
           (ascii ''INFO'', ascii ''Process completed successfully'')])"
  by (simp add: finish_def Let_def split: option.split)

lemma fst_try_body:
  "fst (try_body rt env st user_input w) =
     (case fst (prepare rt env st user_input w) of
        Inl e \<Rightarrow> Inl e
      | Inr (hs_manager, q_type, answer_start) \<Rightarrow>
          (case fst (dispatch rt env q_type user_input (session_context st) hs_manager
                       (snd (prepare rt env st user_input w))) of
             Inl e \<Rightarrow> Inl e
           | Inr answer_var \<Rightarrow>
               fst (finish rt answer_start answer_var
                      (snd (dispatch rt env q_type user_input (session_context st) hs_manager
                              (snd (prepare rt env st user_input w)))))))"
  by (simp add: try_body_def split_beta split: sum.split prod.split)

lemma snd_try_body:
  "snd (try_body rt env st user_input w) =
     (case fst (prepare rt env st user_input w) of
        Inl e \<Rightarrow> snd (prepare rt env st user_input w)
      | Inr (hs_manager, q_type, answer_start) \<Rightarrow>
          (case fst (dispatch rt env q_type user_input (session_context st) hs_manager
                       (snd (prepare rt env st user_input w))) of
             Inl e \<Rightarrow> snd (dispatch rt env q_type user_input (session_context st) hs_manager
                              (snd (prepare rt env st user_input w)))
           | Inr answer_var \<Rightarrow>
               snd (finish rt answer_start answer_var
                      (snd (dispatch rt env q_type user_input (session_context st) hs_manager
                              (snd (prepare rt env st user_input w)))))))"
  by (simp add: try_body_def split_beta split: sum.split prod.split)

lemma fst_process_query:
  "fst (process_query_with_real_logging rt env st user_input) =
     fst (try_body rt env st user_input (RealTimeProcessLogger_init rt 0))"
  by (simp add: process_query_with_real_logging_def Let_def split_beta split: sum.split prod.split)

lemma snd_process_query:
  "snd (process_query_with_real_logging rt env st user_input) =
     (case fst (try_body rt env st user_input (RealTimeProcessLogger_init rt 0)) of
        Inl e \<Rightarrow>
          on_exception rt e (snd (try_body rt env st user_input (RealTimeProcessLogger_init rt 0)))
      | Inr answer \<Rightarrow> snd (try_body rt env st user_input (RealTimeProcessLogger_init rt 0)))"
  by (simp add: process_query_with_real_logging_def Let_def split_beta split: sum.split prod.split)

lemma log_summary_on_exception:
  "log_summary (on_exception rt e w) =
     log_summary w @
     [(ascii ''ERROR'', ascii ''Exception occurred: '' @ exc_str e),
      (ascii ''ERROR'', ascii ''Error type: '' @ exc_type_name e)]"
  by (simp add: on_exception_def Let_def)

lemma query_form_submit_failure:
  "fst (process_query_with_real_logging rt env st user_input) = Inl e \<Longrightarrow>
     query_form_submit rt env user_input st = st"
  by (simp add: query_form_submit_def)

lemma fst_dispatch:
  "fst (dispatch rt env q_type user_input ctx hs_manager w) =
     (if q_type = ascii ''web_search'' then
        (case handle_web_search env user_input ctx hs_manager of
           Inl e \<Rightarrow> Inl e
         | Inr r \<Rightarrow> Inr (Some (banner_web_search @ r)))
      else if q_type = ascii ''hs_classification'' then
        (case handle_hs_classification_cases env user_input ctx hs_manager of
           Inl e \<Rightarrow> Inl e
         | Inr r \<Rightarrow> Inr (Some (banner_hs_classification @ r)))
      else if q_type = ascii ''overseas_hs'' then
        (case handle_overseas_hs env user_input ctx hs_manager of
           Inl e \<Rightarrow> Inl e
         | Inr r \<Rightarrow> Inr (Some (banner_overseas_hs @ r)))
      else if q_type = ascii ''hs_manual'' then
        (case fst (handle_hs_manual_with_parallel_search env user_input ctx hs_manager
                     (tick (log_actual rt (ascii ''AI'')
                        (ascii ''Starting enhanced parallel HS manual analysis...'') None w))) of
           Inl e \<Rightarrow> Inl e
         | Inr r \<Rightarrow> Inr (Some (banner_hs_manual @ r)))
      else if q_type = ascii ''hs_manual_raw'' then fst (hs_manual_raw rt env user_input w)
      else Inr None)"
  by (simp add: dispatch_def fst_call_handler)

lemma error_entries_dispatch:
  "q_type \<noteq> ascii ''hs_manual'' \<Longrightarrow>
     error_entries (snd (dispatch rt env q_type user_input ctx hs_manager w)) =
       error_entries w @
       (if q_type = ascii ''hs_manual_raw'' \<and> extract_hs_codes env user_input = Inr []
        then [(ascii ''ERROR'', ascii ''No valid HS codes found in input'')] else [])"
  by (simp add: dispatch_def error_entries_def log_summary_call_handler
        log_summary_hs_manual_raw split: sum.split)

lemma error_entries_prepare:
  "error_entries (snd (prepare rt env st user_input w)) = error_entries w"
  by (simp add: error_entries_def log_summary_prepare split: sum.split)

lemma error_entries_init [simp]: "error_entries (RealTimeProcessLogger_init rt n) = []"
  by (simp add: error_entries_def)


lemma error_entries_finish:
  "error_entries (snd (finish rt answer_start answer_var w)) = error_entries w"
  by (simp add: error_entries_def log_summary_finish split: option.split)

lemma fst_try_body_eq:
  "fst (try_body rt env st user_input w) =
     (case HSDataManager env of
        Inl e \<Rightarrow> Inl e
      | Inr hs_manager \<Rightarrow>
          (case (if selected_category st = AI_auto_label then classify_question env user_input
                 else Inr (dict_get category_mapping (selected_category st)
                             (ascii ''hs_classification''))) of
             Inl e \<Rightarrow> Inl e
           | Inr q_type \<Rightarrow>
               (case fst (dispatch rt env q_type user_input (session_context st) hs_manager
                            (snd (prepare rt env st user_input w))) of
                  Inl e \<Rightarrow> Inl e
                | Inr None \<Rightarrow>
                    Inl \<lparr>exc_str = unbound_local_message rt,
                         exc_type_name = ascii ''UnboundLocalError''\<rparr>
                | Inr (Some answer) \<Rightarrow> Inr answer)))"
  by (simp add: fst_try_body fst_finish prepare_def get_hs_manager_def Let_def split_beta
        fst_resolve_q_type split: sum.split option.split)

lemma banners_start_with_newline:
  "hd banner_web_search = 0xA" "hd banner_hs_classification = 0xA"
  "hd banner_overseas_hs = 0xA" "hd banner_hs_manual = 0xA" "hd banner_hs_manual_raw = 0xA"
  by (simp_all add: banner_web_search_def banner_hs_classification_def banner_overseas_hs_def
        banner_hs_manual_def banner_hs_manual_raw_def)

lemma raw_label_not_auto:
  "ascii ''HS'' @ [0xD574, 0xC124, 0xC11C, 0xC6D0, 0xBB38, 0xAC80, 0xC0C9] \<noteq> AI_auto_label"
  by (simp add: AI_auto_label_def ascii_def)

lemma raw_label_mapped:
  "dict_get category_mapping
     (ascii ''HS'' @ [0xD574, 0xC124, 0xC11C, 0xC6D0, 0xBB38, 0xAC80, 0xC0C9])
     (ascii ''hs_classification'') = ascii ''hs_manual_raw''"
  by (simp add: dict_get_def category_mapping_def ascii_def)

lemma web_label_tag:
  "[0xC6F9, 0xAC80, 0xC0C9] \<noteq> AI_auto_label"
  "dict_get category_mapping [0xC6F9, 0xAC80, 0xC0C9] (ascii ''hs_classification'') =
     ascii ''web_search''"
  by (simp_all add: AI_auto_label_def dict_get_def category_mapping_def ascii_def)

lemma prepare_ignores_retrieval:
  "prepare rt (env\<lparr>get_hs_explanations := g, clean_text := c\<rparr>) st user_input w =
     prepare rt env st user_input w"
proof -
  have "resolve_q_type rt (env\<lparr>get_hs_explanations := g, clean_text := c\<rparr>) category
          user_input w' = resolve_q_type rt env category user_input w'" for category w'
    by (simp add: resolve_q_type_def)
  then show ?thesis
    by (simp add: prepare_def get_hs_manager_def Let_def split: sum.split)
qed

lemma hs_manual_raw_ignores_retrieval:
  "extract_hs_codes env user_input = Inr [] \<Longrightarrow>
     hs_manual_raw rt (env\<lparr>get_hs_explanations := g, clean_text := c\<rparr>) user_input w =
       hs_manual_raw rt env user_input w"
  by (simp add: hs_manual_raw_def)


section \<open>The router\<close>

text \<open>
  C1. For a category other than the automatic one, the tag \<^verbatim>\<open>q_type\<close> is the entry of
  the five-entry table for that label and \<^verbatim>\<open>hs_classification\<close> for every label that
  is not in the table. It does not depend on the question, on the collaborators, on the
  clock or on the logger; with the same clock and logger the log entry written is the
  same as well.
\<close>

theorem category_mapping_resolves_tag:
  assumes "category \<noteq> AI_auto_label"
  shows "fst (resolve_q_type rt env category user_input w) =
           Inr (if category = [0xC6F9, 0xAC80, 0xC0C9] then ascii ''web_search''
                else if category = [0xAD6D, 0xB0B4, 0x48, 0x53, 0xBD84, 0xB958, 0xC0AC, 0xB840,
                                    0x20, 0xAC80, 0xC0C9] then ascii ''hs_classification''
                else if category = [0xD574, 0xC678, 0x48, 0x53, 0xBD84, 0xB958, 0xC0AC, 0xB840,
                                    0xAC80, 0xC0C9] then ascii ''overseas_hs''
                else if category = [0x48, 0x53, 0xD574, 0xC124, 0xC11C, 0xBD84, 0xC11D]
                  then ascii ''hs_manual''
                else if category = [0x48, 0x53, 0xD574, 0xC124, 0xC11C, 0xC6D0, 0xBB38, 0xAC80,
                                    0xC0C9] then ascii ''hs_manual_raw''
                else ascii ''hs_classification'')
     \<and> fst (resolve_q_type rt env category user_input w) =
         fst (resolve_q_type rt' env' category user_input' w')
     \<and> resolve_q_type rt env category user_input w = resolve_q_type rt env' category user_input' w"
proof -
  have "dict_get category_mapping category (ascii ''hs_classification'') =
          (if category = [0xC6F9, 0xAC80, 0xC0C9] then ascii ''web_search''
           else if category = [0xAD6D, 0xB0B4, 0x48, 0x53, 0xBD84, 0xB958, 0xC0AC, 0xB840,
                               0x20, 0xAC80, 0xC0C9] then ascii ''hs_classification''
           else if category = [0xD574, 0xC678, 0x48, 0x53, 0xBD84, 0xB958, 0xC0AC, 0xB840,
                               0xAC80, 0xC0C9] then ascii ''overseas_hs''
           else if category = [0x48, 0x53, 0xD574, 0xC124, 0xC11C, 0xBD84, 0xC11D]
             then ascii ''hs_manual''
           else if category = [0x48, 0x53, 0xD574, 0xC124, 0xC11C, 0xC6D0, 0xBB38, 0xAC80,
                               0xC0C9] then ascii ''hs_manual_raw''
           else ascii ''hs_classification'')"
    by (simp add: dict_get_def category_mapping_def ascii_def)
  then show ?thesis
    using assms by (simp add: fst_resolve_q_type) (simp add: resolve_q_type_def)
qed

theorem category_mapping_resolves_tag_witness:
  "[0xC6F9, 0xAC80, 0xC0C9] \<noteq> AI_auto_label
   \<and> fst (resolve_q_type example_runtime example_collaborators [0xC6F9, 0xAC80, 0xC0C9]
            (ascii ''laptop'') (RealTimeProcessLogger_init example_runtime 0)) =
       Inr (ascii ''web_search'')"
proof -
  have l: "[0xC6F9, 0xAC80, 0xC0C9] \<noteq> AI_auto_label"
    by (simp add: AI_auto_label_def ascii_def)
  show ?thesis
    using l category_mapping_resolves_tag [OF l, THEN conjunct1, of example_runtime
        example_collaborators "ascii ''laptop''" "RealTimeProcessLogger_init example_runtime 0"]
    by simp
qed


section \<open>Failures\<close>



text \<open>
  C4. When the data manager loads, the tag is \<^verbatim>\<open>hs_manual_raw\<close> (by the category label
  or by the classifier) and \<^verbatim>\<open>extract_hs_codes\<close> returns the empty list, the function
  returns the fixed message, which begins with none of the five banners; the log has
  exactly one \<^verbatim>\<open>ERROR\<close> entry; and the outcome, log included, is the same whatever
  \<^verbatim>\<open>get_hs_explanations\<close> and \<^verbatim>\<open>clean_text\<close> would do, raising included: they are not
  called.
\<close>

theorem no_codes_found_is_answered_without_retrieval:
  assumes "HSDataManager env = Inr hs_manager"
    and "selected_category st = ascii ''HS'' @ [0xD574, 0xC124, 0xC11C, 0xC6D0, 0xBB38, 0xAC80, 0xC0C9]
         \<or> (selected_category st = AI_auto_label
             \<and> classify_question env user_input = Inr (ascii ''hs_manual_raw''))"
    and "extract_hs_codes env user_input = Inr []"
  shows "fst (process_query_with_real_logging rt env st user_input) = Inr no_codes_message
     \<and> error_entries (snd (process_query_with_real_logging rt env st user_input)) =
         [(ascii ''ERROR'', ascii ''No valid HS codes found in input'')]
     \<and> process_query_with_real_logging rt
         (env\<lparr>get_hs_explanations := g, clean_text := c\<rparr>) st user_input =
         process_query_with_real_logging rt env st user_input
     \<and> (\<forall>b \<in> set [banner_web_search, banner_hs_classification, banner_overseas_hs,
                    banner_hs_manual, banner_hs_manual_raw].
          take (length b) no_codes_message \<noteq> b)"
proof -
  let ?w = "RealTimeProcessLogger_init rt 0"
  let ?raw = "ascii ''hs_manual_raw''"
  have tag: "(if selected_category st = AI_auto_label then classify_question env user_input
              else Inr (dict_get category_mapping (selected_category st)
                          (ascii ''hs_classification''))) = Inr ?raw"
    using assms(2) raw_label_not_auto by (auto simp add: raw_label_mapped)
  have prep: "fst (prepare rt env st user_input ?w) =
                Inr (hs_manager, ?raw, snd (snd (projr (fst (prepare rt env st user_input ?w)))))"
    using assms(1) tag
    by (simp add: prepare_def get_hs_manager_def Let_def split_beta fst_resolve_q_type
          split: sum.splits)
  have disp: "fst (dispatch rt env ?raw user_input (session_context st) hs_manager w') =
                Inr (Some no_codes_message)" for w'
    using assms(3) by (simp add: fst_dispatch fst_hs_manual_raw)
  have answer: "fst (try_body rt env st user_input ?w) = Inr no_codes_message"
    using assms(1) tag disp by (simp add: fst_try_body_eq)
  have world: "snd (try_body rt env st user_input ?w) =
                 snd (finish rt (snd (snd (projr (fst (prepare rt env st user_input ?w)))))
                        (Some no_codes_message)
                        (snd (dispatch rt env ?raw user_input (session_context st) hs_manager
                                (snd (prepare rt env st user_input ?w)))))"
    by (subst snd_try_body, subst prep) (simp add: disp)
  have errors: "error_entries (snd (try_body rt env st user_input ?w)) =
                  [(ascii ''ERROR'', ascii ''No valid HS codes found in input'')]"
    using assms(3)
    by (simp add: world error_entries_finish error_entries_dispatch error_entries_prepare)
  have same_dispatch:
    "dispatch rt (env\<lparr>get_hs_explanations := g, clean_text := c\<rparr>) ?raw user_input ctx m w' =
       dispatch rt env ?raw user_input ctx m w'" for ctx m w'
    using assms(3) by (simp add: dispatch_def hs_manual_raw_ignores_retrieval)
  have same_body:
    "try_body rt (env\<lparr>get_hs_explanations := g, clean_text := c\<rparr>) st user_input ?w =
       try_body rt env st user_input ?w"
  proof -
    obtain t0 w7 where p: "prepare rt env st user_input ?w = (Inr (hs_manager, ?raw, t0), w7)"
      using prep by (metis prod.collapse)
    show ?thesis
      by (simp add: try_body_def prepare_ignores_retrieval p same_dispatch)
  qed
  have no_banner: "hd no_codes_message = 0x48"
    by (simp add: no_codes_message_def ascii_def)
  have "take (length b) no_codes_message \<noteq> b"
    if "b \<in> set [banner_web_search, banner_hs_classification, banner_overseas_hs,
                   banner_hs_manual, banner_hs_manual_raw]" for b
  proof
    assume eq: "take (length b) no_codes_message = b"
    from that have "hd b = 0xA \<and> b \<noteq> []"
      by (auto simp add: banners_start_with_newline)
         (simp_all add: banner_web_search_def banner_hs_classification_def
            banner_overseas_hs_def banner_hs_manual_def banner_hs_manual_raw_def)
    moreover from this eq have "hd b = hd no_codes_message"
      by (metis hd_take length_greater_0_conv)
    ultimately show False using no_banner by simp
  qed
  then have c4: "\<forall>b \<in> set [banner_web_search, banner_hs_classification, banner_overseas_hs,
                       banner_hs_manual, banner_hs_manual_raw].
                   take (length b) no_codes_message \<noteq> b"
    by blast
  have c1: "fst (process_query_with_real_logging rt env st user_input) = Inr no_codes_message"
    using answer by (simp add: fst_process_query)
  have c2: "error_entries (snd (process_query_with_real_logging rt env st user_input)) =
              [(ascii ''ERROR'', ascii ''No valid HS codes found in input'')]"
    using answer errors by (simp add: snd_process_query)
  have c3: "process_query_with_real_logging rt
              (env\<lparr>get_hs_explanations := g, clean_text := c\<rparr>) st user_input =
            process_query_with_real_logging rt env st user_input"
    using same_body by (simp add: process_query_with_real_logging_def)
  show ?thesis
    using c1 c2 c3 c4 by blast
qed

theorem no_codes_found_is_answered_without_retrieval_witness:
  "HSDataManager example_collaborators = Inr ()
   \<and> selected_category
        (example_session (ascii ''HS'' @ [0xD574, 0xC124, 0xC11C, 0xC6D0, 0xBB38, 0xAC80, 0xC0C9])) =
       ascii ''HS'' @ [0xD574, 0xC124, 0xC11C, 0xC6D0, 0xBB38, 0xAC80, 0xC0C9]
   \<and> extract_hs_codes example_collaborators (ascii ''laptop'') = Inr []
   \<and> fst (process_query_with_real_logging example_runtime example_collaborators
            (example_session (ascii ''HS'' @ [0xD574, 0xC124, 0xC11C, 0xC6D0, 0xBB38, 0xAC80, 0xC0C9]))
            (ascii ''laptop'')) = Inr no_codes_message
   \<and> error_entries (snd (process_query_with_real_logging example_runtime example_collaborators
            (example_session (ascii ''HS'' @ [0xD574, 0xC124, 0xC11C, 0xC6D0, 0xBB38, 0xAC80, 0xC0C9]))
            (ascii ''laptop''))) =
       [(ascii ''ERROR'', ascii ''No valid HS codes found in input'')]
   \<and> process_query_with_real_logging example_runtime
        (example_collaborators\<lparr>get_hs_explanations := (\<lambda>cs. Inl example_failure),
                                clean_text := (\<lambda>s. Inl example_failure)\<rparr>)
        (example_session (ascii ''HS'' @ [0xD574, 0xC124, 0xC11C, 0xC6D0, 0xBB38, 0xAC80, 0xC0C9]))
        (ascii ''laptop'') =
      process_query_with_real_logging example_runtime example_collaborators
        (example_session (ascii ''HS'' @ [0xD574, 0xC124, 0xC11C, 0xC6D0, 0xBB38, 0xAC80, 0xC0C9]))
        (ascii ''laptop'')
   \<and> take (length banner_hs_manual_raw) no_codes_message \<noteq> banner_hs_manual_raw"
proof -
  let ?st = "example_session (ascii ''HS'' @ [0xD574, 0xC124, 0xC11C, 0xC6D0, 0xBB38, 0xAC80, 0xC0C9])"
  have h1: "HSDataManager example_collaborators = Inr ()"
    by (simp add: example_collaborators_def)
  have h2: "selected_category ?st =
              ascii ''HS'' @ [0xD574, 0xC124, 0xC11C, 0xC6D0, 0xBB38, 0xAC80, 0xC0C9]
            \<or> (selected_category ?st = AI_auto_label
                \<and> classify_question example_collaborators (ascii ''laptop'') =
                    Inr (ascii ''hs_manual_raw''))"
    by (simp add: example_session_def)
  have h3: "extract_hs_codes example_collaborators (ascii ''laptop'') = Inr []"
    by (simp add: example_collaborators_def)
  show ?thesis
    using h1 h3 no_codes_found_is_answered_without_retrieval [OF h1 h2 h3,
        of example_runtime "\<lambda>cs. Inl example_failure" "\<lambda>s. Inl example_failure"]
    by (simp add: example_session_def)
qed

text \<open>
  C9. With the automatic category, a data manager that loads and a classifier that
  returns a tag other than the five the program knows, no branch assigns \<^verbatim>\<open>answer\<close>:
  the function raises \<^verbatim>\<open>UnboundLocalError\<close>. No handler is started; the log ends with the
  two \<^verbatim>\<open>ERROR\<close> entries of the exception handler, and the query form leaves the session
  state as it was.
\<close>

theorem unknown_classifier_tag_raises_unbound_local:
  assumes "selected_category st = AI_auto_label"
    and "HSDataManager env = Inr hs_manager"
    and "classify_question env user_input = Inr q_type"
    and "q_type \<notin> set [ascii ''web_search'', ascii ''hs_classification'', ascii ''overseas_hs'',
                        ascii ''hs_manual'', ascii ''hs_manual_raw'']"
  shows "fst (process_query_with_real_logging rt env st user_input) =
           Inl \<lparr>exc_str = unbound_local_message rt,
                exc_type_name = ascii ''UnboundLocalError''\<rparr>
     \<and> log_summary (snd (process_query_with_real_logging rt env st user_input)) =
         [(ascii ''INFO'', ascii ''Query processing started''),
          (ascii ''SUCCESS'', ascii ''HSDataManager loaded''),
          (ascii ''INFO'', ascii ''Category selected''),
          (ascii ''AI'', ascii ''Starting LLM question classification...''),
          (ascii ''SUCCESS'', ascii ''LLM classification completed''),
          (ascii ''ERROR'', ascii ''Exception occurred: '' @ unbound_local_message rt),
          (ascii ''ERROR'', ascii ''Error type: '' @ ascii ''UnboundLocalError'')]
     \<and> query_form_submit rt env user_input st = st"
proof -
  let ?w = "RealTimeProcessLogger_init rt 0"
  let ?e = "\<lparr>exc_str = unbound_local_message rt, exc_type_name = ascii ''UnboundLocalError''\<rparr>"
  have disp: "dispatch rt env q_type user_input ctx m w' = (Inr None, w')" for ctx m w'
    using assms(4) by (simp add: dispatch_def)
  have prep: "fst (prepare rt env st user_input ?w) =
                Inr (hs_manager, q_type, snd (snd (projr (fst (prepare rt env st user_input ?w)))))"
    using assms(1,2,3)
    by (simp add: prepare_def get_hs_manager_def Let_def split_beta fst_resolve_q_type
          split: sum.splits)
  have raised: "fst (try_body rt env st user_input ?w) = Inl ?e"
    using assms(1,2,3) by (simp add: fst_try_body_eq disp)
  have world: "snd (try_body rt env st user_input ?w) =
                 snd (finish rt (snd (snd (projr (fst (prepare rt env st user_input ?w))))) None
                        (snd (prepare rt env st user_input ?w)))"
    by (subst snd_try_body, subst prep) (simp add: disp)
  have summary: "log_summary (snd (try_body rt env st user_input ?w)) =
                   [(ascii ''INFO'', ascii ''Query processing started''),
                    (ascii ''SUCCESS'', ascii ''HSDataManager loaded''),
                    (ascii ''INFO'', ascii ''Category selected''),
                    (ascii ''AI'', ascii ''Starting LLM question classification...''),
                    (ascii ''SUCCESS'', ascii ''LLM classification completed'')]"
    using assms(1,2,3) by (simp add: world log_summary_finish log_summary_prepare)
  have c1: "fst (process_query_with_real_logging rt env st user_input) = Inl ?e"
    using raised by (simp add: fst_process_query)
  have c2: "log_summary (snd (process_query_with_real_logging rt env st user_input)) =
              [(ascii ''INFO'', ascii ''Query processing started''),
               (ascii ''SUCCESS'', ascii ''HSDataManager loaded''),
               (ascii ''INFO'', ascii ''Category selected''),
               (ascii ''AI'', ascii ''Starting LLM question classification...''),
               (ascii ''SUCCESS'', ascii ''LLM classification completed''),
               (ascii ''ERROR'', ascii ''Exception occurred: '' @ unbound_local_message rt),
               (ascii ''ERROR'', ascii ''Error type: '' @ ascii ''UnboundLocalError'')]"
    using raised summary by (simp add: snd_process_query log_summary_on_exception)
  have c3: "query_form_submit rt env user_input st = st"
    using c1 by (rule query_form_submit_failure)
  show ?thesis
    using c1 c2 c3 by blast
qed

theorem unknown_classifier_tag_raises_unbound_local_witness:
  "selected_category (example_session AI_auto_label) = AI_auto_label
   \<and> HSDataManager example_collaborators = Inr ()
   \<and> classify_question example_collaborators (ascii ''laptop'') = Inr (ascii ''tariff_advice'')
   \<and> ascii ''tariff_advice'' \<notin>
       set [ascii ''web_search'', ascii ''hs_classification'', ascii ''overseas_hs'',
            ascii ''hs_manual'', ascii ''hs_manual_raw'']
   \<and> fst (process_query_with_real_logging example_runtime example_collaborators
            (example_session AI_auto_label) (ascii ''laptop'')) =
       Inl \<lparr>exc_str = ascii ''local variable referenced before assignment'',
            exc_type_name = ascii ''UnboundLocalError''\<rparr>
   \<and> query_form_submit example_runtime example_collaborators (ascii ''laptop'')
        (example_session AI_auto_label) = example_session AI_auto_label"
proof -
  have h1: "selected_category (example_session AI_auto_label) = AI_auto_label"
    by (simp add: example_session_def)
  have h2: "HSDataManager example_collaborators = Inr ()"
    by (simp add: example_collaborators_def)
  have h3: "classify_question example_collaborators (ascii ''laptop'') =
              Inr (ascii ''tariff_advice'')"
    by (simp add: example_collaborators_def)
  have h4: "ascii ''tariff_advice'' \<notin>
              set [ascii ''web_search'', ascii ''hs_classification'', ascii ''overseas_hs'',
                   ascii ''hs_manual'', ascii ''hs_manual_raw'']"
    by (simp add: ascii_def)
  have u: "unbound_local_message example_runtime =
             ascii ''local variable referenced before assignment''"
    by (simp add: example_runtime_def)
  show ?thesis
    using h1 h2 h3 h4 unknown_classifier_tag_raises_unbound_local [OF h1 h2 h3 h4,
        of example_runtime]
    by (simp only: u) blast
qed

section \<open>The chat history\<close>

lemma domestic_label_tag:
  "[0xAD6D, 0xB0B4, 0x48, 0x53, 0xBD84, 0xB958, 0xC0AC, 0xB840, 0x20, 0xAC80, 0xC0C9] \<noteq>
     AI_auto_label"
  "dict_get category_mapping
     [0xAD6D, 0xB0B4, 0x48, 0x53, 0xBD84, 0xB958, 0xC0AC, 0xB840, 0x20, 0xAC80, 0xC0C9]
     (ascii ''hs_classification'') = ascii ''hs_classification''"
  by (simp_all add: AI_auto_label_def dict_get_def category_mapping_def ascii_def)

lemma example_query_succeeds:
  "fst (process_query_with_real_logging example_runtime example_collaborators
          (st\<lparr>selected_category :=
                [0xAD6D, 0xB0B4, 0x48, 0x53, 0xBD84, 0xB958, 0xC0AC, 0xB840, 0x20, 0xAC80, 0xC0C9]\<rparr>)
          user_input) = Inr (banner_hs_classification @ ascii ''8471.30'')"
  by (simp add: fst_process_query fst_try_body_eq fst_dispatch domestic_label_tag
        example_collaborators_def)

lemma example_query_fails:
  "fst (process_query_with_real_logging example_runtime example_collaborators
          (st\<lparr>selected_category := [0xC6F9, 0xAC80, 0xC0C9]\<rparr>) user_input) =
     Inl example_failure"
  by (simp add: fst_process_query fst_try_body_eq fst_dispatch web_label_tag
        example_collaborators_def)

lemma laptop_not_blank: "ascii ''laptop'' \<noteq> []" "py_strip (ascii ''laptop'') \<noteq> []"
  by (simp_all add: py_strip_def py_isspace_def ascii_def)

lemma chat_history_step:
  "chat_history (apply_operation st op) = chat_history st
   \<or> chat_history (apply_operation st op) = []
   \<or> (\<exists>rt env x y. op = Submit rt env x
         \<and> fst (process_query_with_real_logging rt env st x) = Inr y
         \<and> chat_history (apply_operation st op) =
             chat_history st @
             [\<lparr>role = ascii ''user'', content = x\<rparr>, \<lparr>role = ascii ''assistant'', content = y\<rparr>])"
proof (cases op)
  case (Submit rt env x)
  show ?thesis
  proof (cases "fst (process_query_with_real_logging rt env st x)")
    case (Inl e)
    then show ?thesis
      using Submit by (simp add: query_form_submit_def)
  next
    case (Inr y)
    then show ?thesis
      using Submit by (simp add: query_form_submit_def append_turn_def Let_def)
  qed
next
  case New_chat
  then show ?thesis by (simp add: new_chat_def)
next
  case (Select_category c)
  then show ?thesis by simp
qed

lemma run_session_snoc:
  "run_session (ops @ [op]) = apply_operation (run_session ops) op"
  by (simp add: run_session_def)

lemma roles_alternate_append:
  assumes "even (length h)"
    and "\<forall>i<length h. role (h ! i) = (if even i then u else a)"
  shows "\<forall>i<length (h @ [\<lparr>role = u, content = x\<rparr>, \<lparr>role = a, content = y\<rparr>]).
           role ((h @ [\<lparr>role = u, content = x\<rparr>, \<lparr>role = a, content = y\<rparr>]) ! i) =
             (if even i then u else a)"
proof (intro allI impI)
  fix i
  assume "i < length (h @ [\<lparr>role = u, content = x\<rparr>, \<lparr>role = a, content = y\<rparr>])"
  then consider "i < length h" | "i = length h" | "i = Suc (length h)"
    by (simp add: less_Suc_eq) linarith
  then show "role ((h @ [\<lparr>role = u, content = x\<rparr>, \<lparr>role = a, content = y\<rparr>]) ! i) =
               (if even i then u else a)"
  proof cases
    case 1
    then show ?thesis using assms(2) by (simp add: nth_append)
  next
    case 2
    then show ?thesis using assms(1) by (simp add: nth_append)
  next
    case 3
    then show ?thesis using assms(1) by (simp add: nth_append)
  qed
qed

lemma answers_follow_append:
  assumes "even (length h)"
    and "\<forall>i<length h. odd i \<longrightarrow> P (content (h ! (i - 1))) (content (h ! i))"
    and "P x y"
  shows "\<forall>i<length (h @ [\<lparr>role = u, content = x\<rparr>, \<lparr>role = a, content = y\<rparr>]). odd i \<longrightarrow>
           P (content ((h @ [\<lparr>role = u, content = x\<rparr>, \<lparr>role = a, content = y\<rparr>]) ! (i - 1)))
             (content ((h @ [\<lparr>role = u, content = x\<rparr>, \<lparr>role = a, content = y\<rparr>]) ! i))"
proof (intro allI impI)
  fix i
  assume len: "i < length (h @ [\<lparr>role = u, content = x\<rparr>, \<lparr>role = a, content = y\<rparr>])"
    and odd: "odd i"
  from len consider "i < length h" | "i = length h" | "i = Suc (length h)"
    by (simp add: less_Suc_eq) linarith
  then show "P (content ((h @ [\<lparr>role = u, content = x\<rparr>, \<lparr>role = a, content = y\<rparr>]) ! (i - 1)))
               (content ((h @ [\<lparr>role = u, content = x\<rparr>, \<lparr>role = a, content = y\<rparr>]) ! i))"
  proof cases
    case 1
    then have "i - 1 < length h" by simp
    with 1 odd assms(2) show ?thesis by (simp add: nth_append)
  next
    case 2
    with odd assms(1) show ?thesis by simp
  next
    case 3
    with assms(3) show ?thesis by (simp add: nth_append)
  qed
qed

lemma history_even: "even (length (chat_history (run_session ops)))"
proof (induction ops rule: rev_induct)
  case Nil
  show ?case by (simp add: run_session_def initial_session_state_def)
next
  case (snoc op ops)
  from chat_history_step [of "run_session ops" op] snoc show ?case
    by (auto simp add: run_session_snoc)
qed

lemma history_tied:
  fixes ops :: "('t, 'm) operation list"
  shows "\<forall>i<length (chat_history (run_session ops)). odd i \<longrightarrow>
     (\<exists>ops1 (rt :: 't runtime) (env :: ('t, 'm) collaborators) ops2.
        ops = ops1 @ Submit rt env (content (chat_history (run_session ops) ! (i - 1))) # ops2
      \<and> fst (process_query_with_real_logging rt env (run_session ops1)
                (content (chat_history (run_session ops) ! (i - 1)))) =
            Inr (content (chat_history (run_session ops) ! i))
      \<and> chat_history (run_session
            (ops1 @ [Submit rt env (content (chat_history (run_session ops) ! (i - 1)))])) =
            take (Suc i) (chat_history (run_session ops)))"
proof (induction ops rule: rev_induct)
  case Nil
  show ?case by (simp add: run_session_def initial_session_state_def)
next
  case (snoc op ops)
  let ?h = "chat_history (run_session ops)"
  let ?h' = "chat_history (run_session (ops @ [op]))"
  have h': "?h' = chat_history (apply_operation (run_session ops) op)"
    by (simp add: run_session_snoc)
  show ?case
  proof (intro allI impI)
    fix i
    assume i: "i < length ?h'" and odd: "odd i"
    from chat_history_step [of "run_session ops" op]
    consider (same) "?h' = ?h" | (empty) "?h' = []"
      | (more) rt env x y where "op = Submit rt env x"
          "fst (process_query_with_real_logging rt env (run_session ops) x) = Inr y"
          "?h' = ?h @ [\<lparr>role = ascii ''user'', content = x\<rparr>,
                       \<lparr>role = ascii ''assistant'', content = y\<rparr>]"
      unfolding h' by blast
    then show "\<exists>ops1 (rt :: 't runtime) (env :: ('t, 'm) collaborators) ops2.
        ops @ [op] = ops1 @ Submit rt env (content (?h' ! (i - 1))) # ops2
      \<and> fst (process_query_with_real_logging rt env (run_session ops1)
                (content (?h' ! (i - 1)))) = Inr (content (?h' ! i))
      \<and> chat_history (run_session (ops1 @ [Submit rt env (content (?h' ! (i - 1)))])) =
            take (Suc i) ?h'"
    proof cases
      case same
      with i odd snoc obtain ops1 rt env ops2 where
        "ops = ops1 @ Submit rt env (content (?h ! (i - 1))) # ops2"
        "fst (process_query_with_real_logging rt env (run_session ops1)
                (content (?h ! (i - 1)))) = Inr (content (?h ! i))"
        "chat_history (run_session (ops1 @ [Submit rt env (content (?h ! (i - 1)))])) =
            take (Suc i) ?h"
        by (metis (no_types, lifting))
      then have
        "ops @ [op] = ops1 @ Submit rt env (content (?h' ! (i - 1))) # (ops2 @ [op])
         \<and> fst (process_query_with_real_logging rt env (run_session ops1)
                (content (?h' ! (i - 1)))) = Inr (content (?h' ! i))
         \<and> chat_history (run_session (ops1 @ [Submit rt env (content (?h' ! (i - 1)))])) =
            take (Suc i) ?h'"
        unfolding same by simp
      then show ?thesis by blast
    next
      case empty
      with i show ?thesis by simp
    next
      case (more rt env x y)
      have even: "even (length ?h)" by (rule history_even)
      from i more(3) have "i < Suc (Suc (length ?h))" by simp
      with odd even consider (old) "i < length ?h" | (new) "i = Suc (length ?h)"
        by (metis less_Suc_eq)
      then show ?thesis
      proof cases
        case old
        with odd snoc obtain ops1 rt1 env1 ops2 where t:
          "ops = ops1 @ Submit rt1 env1 (content (?h ! (i - 1))) # ops2"
          "fst (process_query_with_real_logging rt1 env1 (run_session ops1)
                  (content (?h ! (i - 1)))) = Inr (content (?h ! i))"
          "chat_history (run_session (ops1 @ [Submit rt1 env1 (content (?h ! (i - 1)))])) =
              take (Suc i) ?h"
          by (metis (no_types, lifting))
        from old have nth: "?h' ! i = ?h ! i" "?h' ! (i - 1) = ?h ! (i - 1)"
          "take (Suc i) ?h' = take (Suc i) ?h"
          unfolding more(3) by (simp_all add: nth_append)
        from t have
          "ops @ [op] = ops1 @ Submit rt1 env1 (content (?h' ! (i - 1))) # (ops2 @ [op])
           \<and> fst (process_query_with_real_logging rt1 env1 (run_session ops1)
                  (content (?h' ! (i - 1)))) = Inr (content (?h' ! i))
           \<and> chat_history (run_session (ops1 @ [Submit rt1 env1 (content (?h' ! (i - 1)))])) =
              take (Suc i) ?h'"
          unfolding nth by simp
        then show ?thesis by blast
      next
        case new
        have nth: "content (?h' ! (i - 1)) = x" "content (?h' ! i) = y"
          "take (Suc i) ?h' = ?h'"
          unfolding more(3) new by (simp_all add: nth_append)
        have "ops @ [op] = ops @ Submit rt env (content (?h' ! (i - 1))) # []
           \<and> fst (process_query_with_real_logging rt env (run_session ops)
                  (content (?h' ! (i - 1)))) = Inr (content (?h' ! i))
           \<and> chat_history (run_session (ops @ [Submit rt env (content (?h' ! (i - 1)))])) =
              take (Suc i) ?h'"
          unfolding nth using more(1,2) by simp
        then show ?thesis by blast
      qed
    qed
  qed
qed

text \<open>
  C6. The three updates made after a successful query with input \<open>x\<close> and answer \<open>y\<close>
  add to the chat history exactly two turns, the user turn with \<open>x\<close> and then the
  assistant turn with \<open>y\<close>, and add to the context a newline, the Korean user label,
  \<open>x\<close>, a newline, the Korean expert label, \<open>y\<close> and a newline, so the context gets
  strictly longer; the selected category stays. The query form makes exactly these
  updates when the input is not blank and the query returns \<open>y\<close>.
\<close>

theorem successful_query_appends_one_exchange:
  "chat_history (append_turn x y st) =
     chat_history st @
     [\<lparr>role = ascii ''user'', content = x\<rparr>, \<lparr>role = ascii ''assistant'', content = y\<rparr>]
   \<and> length (chat_history (append_turn x y st)) = length (chat_history st) + 2
   \<and> session_context (append_turn x y st) =
       session_context st @ [0xA, 0xC0AC, 0xC6A9, 0xC790, 0x3A, 0x20] @ x @
       [0xA, 0xD488, 0xBAA9, 0xBD84, 0xB958, 0x20, 0xC804, 0xBB38, 0xAC00, 0x3A, 0x20] @ y @ [0xA]
   \<and> length (session_context st) < length (session_context (append_turn x y st))
   \<and> selected_category (append_turn x y st) = selected_category st
   \<and> (x \<noteq> [] \<and> py_strip x \<noteq> [] \<and>
        fst (process_query_with_real_logging rt env st x) = Inr y \<longrightarrow>
        query_form_submit rt env x st = append_turn x y st)"
  by (simp add: append_turn_def Let_def user_label_def expert_label_def ascii_def
        query_form_submit_def)

theorem successful_query_appends_one_exchange_witness:
  "ascii ''laptop'' \<noteq> [] \<and> py_strip (ascii ''laptop'') \<noteq> []
   \<and> fst (process_query_with_real_logging example_runtime example_collaborators
            (example_session
               [0xAD6D, 0xB0B4, 0x48, 0x53, 0xBD84, 0xB958, 0xC0AC, 0xB840, 0x20, 0xAC80, 0xC0C9])
            (ascii ''laptop'')) = Inr (banner_hs_classification @ ascii ''8471.30'')
   \<and> chat_history (query_form_submit example_runtime example_collaborators (ascii ''laptop'')
         (example_session
            [0xAD6D, 0xB0B4, 0x48, 0x53, 0xBD84, 0xB958, 0xC0AC, 0xB840, 0x20, 0xAC80, 0xC0C9])) =
       [\<lparr>role = ascii ''user'', content = ascii ''laptop''\<rparr>,
        \<lparr>role = ascii ''assistant'', content = banner_hs_classification @ ascii ''8471.30''\<rparr>]"
proof -
  let ?st = "example_session
               [0xAD6D, 0xB0B4, 0x48, 0x53, 0xBD84, 0xB958, 0xC0AC, 0xB840, 0x20, 0xAC80, 0xC0C9]"
  have h: "fst (process_query_with_real_logging example_runtime example_collaborators ?st
                 (ascii ''laptop'')) = Inr (banner_hs_classification @ ascii ''8471.30'')"
    unfolding example_session_def by (rule example_query_succeeds)
  have e: "chat_history ?st = []"
    by (simp add: example_session_def initial_session_state_def)
  show ?thesis
    using h e laptop_not_blank
      successful_query_appends_one_exchange [of "ascii ''laptop''"
        "banner_hs_classification @ ascii ''8471.30''" ?st example_runtime example_collaborators]
    by simp
qed

text \<open>
  C10. After any sequence of operations on a fresh session (submitting the form,
  whether the query succeeds or fails, the new-chat button, choosing a category) the
  chat history has even length, the turn at every even index has the role \<^verbatim>\<open>user\<close> and
  the turn at every odd index the role \<^verbatim>\<open>assistant\<close>. Every odd-index turn is the answer
  to the turn before it: the sequence contains a submission of that user text for which,
  in the session state reached by the operations before it, the query function returned
  that answer, and directly after that submission the history ended with this pair.
  One operation does the following to the history: the new-chat button empties it,
  choosing a category leaves it, and a submission appends the user turn followed by the
  assistant turn when the input is not blank and the query returns, and leaves it
  otherwise; no operation inserts a single turn or reorders turns.
\<close>

theorem chat_history_is_paired:
  fixes ops :: "('t, 'm) operation list" and op :: "('t, 'm) operation"
    and rt' :: "'t runtime" and env' :: "('t, 'm) collaborators"
  shows "even (length (chat_history (run_session ops)))
   \<and> (\<forall>i<length (chat_history (run_session ops)).
        role (chat_history (run_session ops) ! i) =
          (if even i then ascii ''user'' else ascii ''assistant''))
   \<and> (\<forall>i<length (chat_history (run_session ops)). odd i \<longrightarrow>
        (\<exists>(rt :: 't runtime) (env :: ('t, 'm) collaborators) st.
           fst (process_query_with_real_logging rt env st
                  (content (chat_history (run_session ops) ! (i - 1)))) =
             Inr (content (chat_history (run_session ops) ! i))))
   \<and> (chat_history (apply_operation st op) = chat_history st
       \<or> chat_history (apply_operation st op) = []
       \<or> (\<exists>x y. chat_history (apply_operation st op) =
             chat_history st @
             [\<lparr>role = ascii ''user'', content = x\<rparr>,
              \<lparr>role = ascii ''assistant'', content = y\<rparr>]))
   \<and> (\<forall>i<length (chat_history (run_session ops)). odd i \<longrightarrow>
        (\<exists>ops1 (rt :: 't runtime) (env :: ('t, 'm) collaborators) ops2.
           ops = ops1 @ Submit rt env (content (chat_history (run_session ops) ! (i - 1))) # ops2
         \<and> fst (process_query_with_real_logging rt env (run_session ops1)
                   (content (chat_history (run_session ops) ! (i - 1)))) =
               Inr (content (chat_history (run_session ops) ! i))
         \<and> chat_history (run_session
               (ops1 @ [Submit rt env (content (chat_history (run_session ops) ! (i - 1)))])) =
               take (Suc i) (chat_history (run_session ops))))
   \<and> chat_history (apply_operation st (New_chat :: ('t, 'm) operation)) = []
   \<and> chat_history (apply_operation st (Select_category c :: ('t, 'm) operation)) =
       chat_history st
   \<and> chat_history (apply_operation st (Submit rt' env' x)) =
       (if x \<noteq> [] \<and> py_strip x \<noteq> [] then
          (case fst (process_query_with_real_logging rt' env' st x) of
             Inl e \<Rightarrow> chat_history st
           | Inr y \<Rightarrow>
               chat_history st @
               [\<lparr>role = ascii ''user'', content = x\<rparr>,
                \<lparr>role = ascii ''assistant'', content = y\<rparr>])
        else chat_history st)"
proof -
  let ?P = "\<lambda>x y. \<exists>(rt :: 't runtime) (env :: ('t, 'm) collaborators) st.
              fst (process_query_with_real_logging rt env st x) = Inr y"
  let ?inv = "\<lambda>h. even (length h)
     \<and> (\<forall>i<length h. role (h ! i) = (if even i then ascii ''user'' else ascii ''assistant''))
     \<and> (\<forall>i<length h. odd i \<longrightarrow> ?P (content (h ! (i - 1))) (content (h ! i)))"
  have inv: "?inv (chat_history (run_session ops))"
  proof (induction ops rule: rev_induct)
    case Nil
    show ?case by (simp add: run_session_def initial_session_state_def)
  next
    case (snoc op' ops)
    let ?st = "run_session ops"
    from chat_history_step [of ?st op']
    consider "chat_history (apply_operation ?st op') = chat_history ?st"
      | "chat_history (apply_operation ?st op') = []"
      | x y where "?P x y"
          "chat_history (apply_operation ?st op') =
             chat_history ?st @
             [\<lparr>role = ascii ''user'', content = x\<rparr>, \<lparr>role = ascii ''assistant'', content = y\<rparr>]"
      by blast
    then show ?case
    proof cases
      case 1
      with snoc show ?thesis by (simp add: run_session_snoc)
    next
      case 2
      then show ?thesis by (simp add: run_session_snoc)
    next
      case 3
      from snoc have e: "even (length (chat_history ?st))" by blast
      from snoc have r: "\<forall>i<length (chat_history ?st).
          role (chat_history ?st ! i) = (if even i then ascii ''user'' else ascii ''assistant'')"
        by blast
      from snoc have p: "\<forall>i<length (chat_history ?st). odd i \<longrightarrow>
          ?P (content (chat_history ?st ! (i - 1))) (content (chat_history ?st ! i))"
        by blast
      have "even (length (chat_history (apply_operation ?st op')))"
        using e 3(2) by simp
      moreover note roles_alternate_append [OF e r, of x y]
        answers_follow_append [of "chat_history ?st" ?P x y, OF e p 3(1)]
      ultimately show ?thesis
        unfolding run_session_snoc 3(2) by blast
    qed
  qed
  have step: "chat_history (apply_operation st op) = chat_history st
       \<or> chat_history (apply_operation st op) = []
       \<or> (\<exists>x y. chat_history (apply_operation st op) =
             chat_history st @
             [\<lparr>role = ascii ''user'', content = x\<rparr>,
              \<lparr>role = ascii ''assistant'', content = y\<rparr>])"
    using chat_history_step [of st op] by blast
  have new_chat: "chat_history (apply_operation st (New_chat :: ('t, 'm) operation)) = []"
    by (simp add: new_chat_def)
  have select: "chat_history (apply_operation st (Select_category c :: ('t, 'm) operation)) =
                  chat_history st"
    by simp
  have submit: "chat_history (apply_operation st (Submit rt' env' x)) =
       (if x \<noteq> [] \<and> py_strip x \<noteq> [] then
          (case fst (process_query_with_real_logging rt' env' st x) of
             Inl e \<Rightarrow> chat_history st
           | Inr y \<Rightarrow>
               chat_history st @
               [\<lparr>role = ascii ''user'', content = x\<rparr>,
                \<lparr>role = ascii ''assistant'', content = y\<rparr>])
        else chat_history st)"
    by (simp add: query_form_submit_def append_turn_def Let_def split: sum.split)
  show ?thesis
    using inv step history_tied [of ops] new_chat select submit by blast
qed

theorem chat_history_is_paired_witness:
  "chat_history (run_session
     [Select_category
        [0xAD6D, 0xB0B4, 0x48, 0x53, 0xBD84, 0xB958, 0xC0AC, 0xB840, 0x20, 0xAC80, 0xC0C9],
      Submit example_runtime example_collaborators (ascii ''laptop''),
      Select_category [0xC6F9, 0xAC80, 0xC0C9],
      Submit example_runtime example_collaborators (ascii ''laptop'')]) =
     [\<lparr>role = ascii ''user'', content = ascii ''laptop''\<rparr>,
      \<lparr>role = ascii ''assistant'', content = banner_hs_classification @ ascii ''8471.30''\<rparr>]
   \<and> role (chat_history (run_session
         [Select_category
            [0xAD6D, 0xB0B4, 0x48, 0x53, 0xBD84, 0xB958, 0xC0AC, 0xB840, 0x20, 0xAC80, 0xC0C9],
          Submit example_runtime example_collaborators (ascii ''laptop''),
          Select_category [0xC6F9, 0xAC80, 0xC0C9],
          Submit example_runtime example_collaborators (ascii ''laptop'')]) ! 0) = ascii ''user''
   \<and> role (chat_history (run_session
         [Select_category
            [0xAD6D, 0xB0B4, 0x48, 0x53, 0xBD84, 0xB958, 0xC0AC, 0xB840, 0x20, 0xAC80, 0xC0C9],
          Submit example_runtime example_collaborators (ascii ''laptop''),
          Select_category [0xC6F9, 0xAC80, 0xC0C9],
          Submit example_runtime example_collaborators (ascii ''laptop'')]) ! 1) =
       ascii ''assistant''
   \<and> (\<exists>ops1 (rt :: int runtime) (env :: (int, unit) collaborators) ops2.
        [Select_category
           [0xAD6D, 0xB0B4, 0x48, 0x53, 0xBD84, 0xB958, 0xC0AC, 0xB840, 0x20, 0xAC80, 0xC0C9],
         Submit example_runtime example_collaborators (ascii ''laptop''),
         Select_category [0xC6F9, 0xAC80, 0xC0C9],
         Submit example_runtime example_collaborators (ascii ''laptop'')] =
          ops1 @ Submit rt env (ascii ''laptop'') # ops2
      \<and> fst (process_query_with_real_logging rt env (run_session ops1) (ascii ''laptop'')) =
          Inr (banner_hs_classification @ ascii ''8471.30''))"
proof -
  let ?ops = "[Select_category
        [0xAD6D, 0xB0B4, 0x48, 0x53, 0xBD84, 0xB958, 0xC0AC, 0xB840, 0x20, 0xAC80, 0xC0C9],
      Submit example_runtime example_collaborators (ascii ''laptop''),
      Select_category [0xC6F9, 0xAC80, 0xC0C9],
      Submit example_runtime example_collaborators (ascii ''laptop'')]"
  have h: "chat_history (run_session ?ops) =
             [\<lparr>role = ascii ''user'', content = ascii ''laptop''\<rparr>,
              \<lparr>role = ascii ''assistant'',
                content = banner_hs_classification @ ascii ''8471.30''\<rparr>]"
  proof -
    have empty: "chat_history initial_session_state = []"
      by (simp add: initial_session_state_def)
    show ?thesis
      by (simp add: run_session_def query_form_submit_def laptop_not_blank
            example_query_succeeds example_query_fails append_turn_def Let_def empty)
  qed
  let ?h = "[\<lparr>role = ascii ''user'', content = ascii ''laptop''\<rparr>,
             \<lparr>role = ascii ''assistant'',
               content = banner_hs_classification @ ascii ''8471.30''\<rparr>]"
  note t = chat_history_is_paired [where ops = ?ops, unfolded h]
  from t have "\<forall>i<length ?h.
      role (?h ! i) = (if even i then ascii ''user'' else ascii ''assistant'')"
    by blast
  then have "((0::nat) < length ?h \<longrightarrow>
               role (?h ! 0) = (if even (0::nat) then ascii ''user'' else ascii ''assistant''))
           \<and> ((1::nat) < length ?h \<longrightarrow>
               role (?h ! 1) = (if even (1::nat) then ascii ''user'' else ascii ''assistant''))"
    by blast
  then have r: "role (?h ! 0) = ascii ''user'' \<and> role (?h ! 1) = ascii ''assistant''"
    by simp
  from t have "\<forall>i<length ?h. odd i \<longrightarrow>
      (\<exists>ops1 (rt :: int runtime) (env :: (int, unit) collaborators) ops2.
         ?ops = ops1 @ Submit rt env (content (?h ! (i - 1))) # ops2
       \<and> fst (process_query_with_real_logging rt env (run_session ops1)
                (content (?h ! (i - 1)))) = Inr (content (?h ! i))
       \<and> chat_history (run_session (ops1 @ [Submit rt env (content (?h ! (i - 1)))])) =
            take (Suc i) ?h)"
    by blast
  then have "(1::nat) < length ?h \<longrightarrow> odd (1::nat) \<longrightarrow>
      (\<exists>ops1 (rt :: int runtime) (env :: (int, unit) collaborators) ops2.
         ?ops = ops1 @ Submit rt env (content (?h ! (1 - 1))) # ops2
       \<and> fst (process_query_with_real_logging rt env (run_session ops1)
                (content (?h ! (1 - 1)))) = Inr (content (?h ! 1))
       \<and> chat_history (run_session (ops1 @ [Submit rt env (content (?h ! (1 - 1)))])) =
            take (Suc 1) ?h)"
    by blast
  then have ex: "\<exists>ops1 (rt :: int runtime) (env :: (int, unit) collaborators) ops2.
        ?ops = ops1 @ Submit rt env (ascii ''laptop'') # ops2
      \<and> fst (process_query_with_real_logging rt env (run_session ops1) (ascii ''laptop'')) =
          Inr (banner_hs_classification @ ascii ''8471.30'')"
    by simp blast
  show ?thesis
    unfolding h using r ex by blast
qed
end
